theory Spec2Isabelle
  imports Main
begin

section \<open>Error taxonomy (exceptions.py)\<close>

text \<open>
  The exception classes of \<^verbatim>\<open>exceptions.py\<close>: one base class and ten subclasses
  that add nothing to it. The class of a raised exception is a value of \<open>exc_class\<close>.
\<close>

datatype exc_class =
    YesCaptchaError
  | TaskTimeoutError
  | InsufficientBalanceError
  | InvalidKeyError
  | TaskUnsolvableError
  | IPBlockedError
  | NoSlotAvailableError
  | TaskNotSupportedError
  | InvalidTaskIdError
  | BadRequestError
  | ServiceUnavailableError

text \<open>
  An exception instance: its class, the three attributes that \<^verbatim>\<open>__init__\<close> stores and
  the message handed to \<^verbatim>\<open>Exception.__init__\<close>. Python's \<^verbatim>\<open>None\<close> is \<open>None\<close>.
\<close>

record api_exception =
  exc_kind :: exc_class
  error_id :: int
  error_code :: "string option"
  error_description :: "string option"
  message :: "string option"

text \<open>Truthiness of an \<^verbatim>\<open>Optional[str]\<close>: \<^verbatim>\<open>None\<close> and the empty string are falsy.\<close>

fun truthy_str :: "string option \<Rightarrow> bool" where
  "truthy_str None = False"
| "truthy_str (Some s) = (s \<noteq> [])"

text \<open>What an f-string prints for an \<^verbatim>\<open>Optional[str]\<close>: \<^verbatim>\<open>None\<close> prints as \<^verbatim>\<open>None\<close>.\<close>

fun fstr_opt :: "string option \<Rightarrow> string" where
  "fstr_opt None = ''None''"
| "fstr_opt (Some s) = s"

definition make_exception ::
  "exc_class \<Rightarrow> int \<Rightarrow> string option \<Rightarrow> string option \<Rightarrow> api_exception" where
  "make_exception cls eid code descr =
     \<lparr> exc_kind = cls, error_id = eid, error_code = code, error_description = descr,
       message = (if truthy_str code
                  then Some (''['' @ fstr_opt code @ ''] '' @ fstr_opt descr)
                  else descr) \<rparr>"

text \<open>The dictionary \<^verbatim>\<open>ERROR_CODE_MAP\<close>, in the order of the source.\<close>

definition ERROR_CODE_MAP :: "(string \<times> exc_class) list" where
  "ERROR_CODE_MAP =
     [ (''ERROR_TASK_TIMEOUT'', TaskTimeoutError),
       (''ERROR_ZERO_BALANCE'', InsufficientBalanceError),
       (''ERROR_KEY_DOES_NOT_EXIST'', InvalidKeyError),
       (''ERROR_CAPTCHA_UNSOLVABLE'', TaskUnsolvableError),
       (''ERROR_IP_BLOCKED_5MIN'', IPBlockedError),
       (''ERROR_IP_BANNED'', IPBlockedError),
       (''ERROR_NO_SLOT_AVAILABLE'', NoSlotAvailableError),
       (''ERROR_NO_SLOT_AVAILABLE_BLOCK'', NoSlotAvailableError),
       (''ERROR_TASK_NOT_SUPPORTED'', TaskNotSupportedError),
       (''ERROR_TASKID_INVALID'', InvalidTaskIdError),
       (''ERROR_NO_SUCH_CAPCHA_ID'', InvalidTaskIdError),
       (''ERROR_BAD_REQUEST'', BadRequestError),
       (''ERROR_SERVICE_UNAVALIABLE'', ServiceUnavailableError) ]"

text \<open>\<^verbatim>\<open>d.get(k, default)\<close> on a dictionary written as an association list.\<close>

definition dict_get :: "('k \<times> 'v) list \<Rightarrow> 'k \<Rightarrow> 'v \<Rightarrow> 'v" where
  "dict_get d k dflt = (case map_of d k of None \<Rightarrow> dflt | Some v \<Rightarrow> v)"

text \<open>\<^verbatim>\<open>error_code or ""\<close>: the code itself when it is truthy, the empty string otherwise.\<close>

definition code_or_empty :: "string option \<Rightarrow> string" where
  "code_or_empty code = (if truthy_str code then the code else [])"

text \<open>
  \<^verbatim>\<open>raise_for_error\<close>: \<open>Inr ()\<close> is the normal return, \<open>Inl e\<close> is \<^verbatim>\<open>raise e\<close>.
\<close>

definition raise_for_error ::
  "int \<Rightarrow> string option \<Rightarrow> string option \<Rightarrow> api_exception + unit" where
  "raise_for_error eid code descr =
     (if eid = 0 then Inr ()
      else Inl (make_exception (dict_get ERROR_CODE_MAP (code_or_empty code) YesCaptchaError)
                  eid code descr))"

text \<open>
  The mapping table as the specification words it (section 4.2), kept apart from
  \<open>ERROR_CODE_MAP\<close> so that the two can be compared.
\<close>

definition spec_error_kind :: "string \<Rightarrow> exc_class" where
  "spec_error_kind code =
     (if code = ''ERROR_TASK_TIMEOUT'' then TaskTimeoutError
      else if code = ''ERROR_ZERO_BALANCE'' then InsufficientBalanceError
      else if code = ''ERROR_KEY_DOES_NOT_EXIST'' then InvalidKeyError
      else if code = ''ERROR_CAPTCHA_UNSOLVABLE'' then TaskUnsolvableError
      else if code = ''ERROR_IP_BLOCKED_5MIN'' \<or> code = ''ERROR_IP_BANNED'' then IPBlockedError
      else if code = ''ERROR_NO_SLOT_AVAILABLE'' \<or> code = ''ERROR_NO_SLOT_AVAILABLE_BLOCK''
        then NoSlotAvailableError
      else if code = ''ERROR_TASK_NOT_SUPPORTED'' then TaskNotSupportedError
      else if code = ''ERROR_TASKID_INVALID'' \<or> code = ''ERROR_NO_SUCH_CAPCHA_ID''
        then InvalidTaskIdError
      else if code = ''ERROR_BAD_REQUEST'' then BadRequestError
      else if code = ''ERROR_SERVICE_UNAVALIABLE'' then ServiceUnavailableError
      else YesCaptchaError)"

section \<open>Properties of the error check\<close>

lemma code_or_empty_Some: "code_or_empty (Some c) = c"
  by (cases c) (simp_all add: code_or_empty_def)

lemma ERROR_CODE_MAP_lookup:
  "dict_get ERROR_CODE_MAP c YesCaptchaError = spec_error_kind c"
  by (simp add: dict_get_def ERROR_CODE_MAP_def spec_error_kind_def)

text \<open>
  Claim C1. For every error code string, \<open>raise_for_error\<close> called with a nonzero
  \<open>errorId\<close> raises (never returns), the class of the exception is the one the mapping
  table of the specification gives for that code, the generic \<open>YesCaptchaError\<close> for
  every code outside the table, and the exception carries the id, the code and the
  description it was given, unchanged.
\<close>

theorem raise_for_error_mapped:
  assumes "eid \<noteq> 0"
  shows "\<exists>e. raise_for_error eid (Some c) descr = Inl e
           \<and> exc_kind e = spec_error_kind c
           \<and> error_id e = eid \<and> error_code e = Some c \<and> error_description e = descr"
  using assms
  by (simp add: raise_for_error_def make_exception_def code_or_empty_Some
      ERROR_CODE_MAP_lookup)

theorem raise_for_error_mapped_witness:
  "(1::int) \<noteq> 0 \<and>
   (\<exists>e. raise_for_error 1 (Some ''ERROR_IP_BANNED'') (Some ''banned'') = Inl e
      \<and> exc_kind e = IPBlockedError
      \<and> error_id e = 1 \<and> error_code e = Some ''ERROR_IP_BANNED''
      \<and> error_description e = Some ''banned'')"
  using raise_for_error_mapped [of 1 "''ERROR_IP_BANNED''" "Some ''banned''"]
  by (simp add: spec_error_kind_def)

text \<open>
  Claim C2. With \<open>errorId = 0\<close> the error check returns normally and raises nothing,
  whatever the code and the description are, \<^verbatim>\<open>None\<close> included.
\<close>

theorem raise_for_error_zero_noop: "raise_for_error 0 code descr = Inr ()"
  by (simp add: raise_for_error_def)

section \<open>Floating-point numbers\<close>

text \<open>
  Python's \<^verbatim>\<open>float\<close> is an IEEE 754 binary64 number. \<open>Finite s m e\<close> stands for
  \<open>(-1)^s * m * 2^e\<close>; it is a double when \<open>0 \<le> m < 2^53\<close> and \<open>-1074 \<le> e \<le> 971\<close>.
  Addition rounds to nearest, ties to even, and overflows to an infinity, as the
  hardware does; comparisons with a NaN are false.
\<close>

datatype f64 = Finite bool int int | Infinity bool | NaN

definition f64_valid :: "f64 \<Rightarrow> bool" where
  "f64_valid x =
     (case x of Finite s m e \<Rightarrow> 0 \<le> m \<and> m < 2 ^ 53 \<and> - 1074 \<le> e \<and> e \<le> 971 | _ \<Rightarrow> True)"

definition signed_int :: "bool \<Rightarrow> int \<Rightarrow> int" where
  "signed_int s m = (if s then - m else m)"

text \<open>The number of binary digits of a positive integer.\<close>

function bitlen :: "int \<Rightarrow> int" where
  "bitlen n = (if n \<le> 0 then 0 else 1 + bitlen (n div 2))"
  by pat_completeness auto
termination
  by (relation "measure nat") auto

declare bitlen.simps [simp del]

text \<open>
  \<open>f64_round s n e\<close> rounds the exact magnitude \<open>n * 2^e\<close> (with \<open>n > 0\<close>) to a double
  of sign \<open>s\<close>: it drops the low \<open>shift\<close> bits, rounds half to even, renormalises a
  carry out of the 53rd bit and overflows to an infinity.
\<close>

definition f64_round :: "bool \<Rightarrow> int \<Rightarrow> int \<Rightarrow> f64" where
  "f64_round s n e =
     (let shift = max (bitlen n - 53) (- 1074 - e) in
      if shift \<le> 0 then Finite s n e
      else
        let d = 2 ^ nat shift;
            q = n div d;
            r = n mod d;
            half = d div 2;
            q' = (if r > half \<or> (r = half \<and> odd q) then q + 1 else q);
            m = (if q' = 2 ^ 53 then 2 ^ 52 else q');
            e' = (if q' = 2 ^ 53 then e + shift + 1 else e + shift)
        in if e' > 971 then Infinity s else Finite s m e')"

fun f64_add :: "f64 \<Rightarrow> f64 \<Rightarrow> f64" where
  "f64_add NaN _ = NaN"
| "f64_add _ NaN = NaN"
| "f64_add (Infinity s) (Infinity t) = (if s = t then Infinity s else NaN)"
| "f64_add (Infinity s) (Finite _ _ _) = Infinity s"
| "f64_add (Finite _ _ _) (Infinity t) = Infinity t"
| "f64_add (Finite s1 m1 e1) (Finite s2 m2 e2) =
     (let e = min e1 e2;
          n = signed_int s1 m1 * 2 ^ nat (e1 - e) + signed_int s2 m2 * 2 ^ nat (e2 - e)
      in if n = 0 then Finite (s1 \<and> s2) 0 e
         else f64_round (n < 0) \<bar>n\<bar> e)"

fun f64_lt :: "f64 \<Rightarrow> f64 \<Rightarrow> bool" where
  "f64_lt NaN _ = False"
| "f64_lt _ NaN = False"
| "f64_lt (Infinity s) (Infinity t) = (s \<and> \<not> t)"
| "f64_lt (Infinity s) (Finite _ _ _) = s"
| "f64_lt (Finite _ _ _) (Infinity t) = (\<not> t)"
| "f64_lt (Finite s1 m1 e1) (Finite s2 m2 e2) =
     (let e = min e1 e2
      in signed_int s1 m1 * 2 ^ nat (e1 - e) < signed_int s2 m2 * 2 ^ nat (e2 - e))"

fun f64_le :: "f64 \<Rightarrow> f64 \<Rightarrow> bool" where
  "f64_le NaN _ = False"
| "f64_le _ NaN = False"
| "f64_le (Infinity s) (Infinity t) = (s \<or> \<not> t)"
| "f64_le (Infinity s) (Finite _ _ _) = s"
| "f64_le (Finite _ _ _) (Infinity t) = (\<not> t)"
| "f64_le (Finite s1 m1 e1) (Finite s2 m2 e2) =
     (let e = min e1 e2
      in signed_int s1 m1 * 2 ^ nat (e1 - e) \<le> signed_int s2 m2 * 2 ^ nat (e2 - e))"

text \<open>The literals of the source and of the scenarios, as doubles.\<close>

definition f64_zero :: f64 where
  "f64_zero = Finite False 0 0"

definition f64_3 :: f64 where
  "f64_3 = Finite False 3 0"

definition f64_5 :: f64 where
  "f64_5 = Finite False 5 0"

definition f64_120 :: f64 where
  "f64_120 = Finite False 120 0"

definition f64_0_1 :: f64 where
  "f64_0_1 = Finite False 3602879701896397 (- 55)"

definition f64_0_3 :: f64 where
  "f64_0_3 = Finite False 5404319552844595 (- 54)"

section \<open>Task and response models (models.py)\<close>

text \<open>
  The values that model fields hold and that JSON carries: \<^verbatim>\<open>None\<close>, booleans,
  integers, floats, strings, lists, and dictionaries with string keys (an association
  list in insertion order; a lookup takes the first entry of a key).
\<close>

datatype pyval =
    PNone
  | PBool bool
  | PInt int
  | PFloat f64
  | PStr string
  | PList "pyval list"
  | PDict "(string \<times> pyval) list"

text \<open>The annotations that occur on the fields of \<^verbatim>\<open>models.py\<close>.\<close>

datatype ftype =
    TStr
  | TBool
  | TInt
  | TAny
  | TLiteral "string list"
  | TList ftype
  | TDict ftype
  | TOptional ftype

text \<open>
  A field declaration: its name, its annotation, and its default (\<open>None\<close> for a
  required field, written \<^verbatim>\<open>Field(...)\<close> or left without a value in the source).
  A model class is the list of its fields in source order and whether its
  \<^verbatim>\<open>model_config\<close> sets \<^verbatim>\<open>extra\<close> to \<^verbatim>\<open>allow\<close> (the default ignores extra keys).
\<close>

record field =
  fname :: string
  ftype :: ftype
  fdefault :: "pyval option"

record model =
  mname :: string
  model_fields :: "field list"
  extra_allow :: bool

text \<open>
  An instance of a model class: the class name, the value of every declared field in
  declaration order, and \<^verbatim>\<open>model_extra\<close> (\<^verbatim>\<open>None\<close> unless the class allows extras).
\<close>

record model_instance =
  inst_model :: string
  inst_fields :: "(string \<times> pyval) list"
  inst_extra :: "(string \<times> pyval) list option"

text \<open>
  Validation of one value against an annotation, \<open>None\<close> when the value is rejected.
  A value that already has the annotated type is kept as it is. What the library's lax
  mode converts into a \<^verbatim>\<open>bool\<close> or an \<^verbatim>\<open>int\<close> from a value of another type is
  library data and is left as the parameter \<open>lx\<close>; a \<^verbatim>\<open>str\<close> and a
  \<^verbatim>\<open>Literal\<close> of strings take strings only, a list annotation takes lists only, a
  dictionary annotation takes dictionaries only.
\<close>

record lax =
  lax_bool :: "pyval \<Rightarrow> bool option"
  lax_int :: "pyval \<Rightarrow> int option"

fun validate_value :: "lax \<Rightarrow> ftype \<Rightarrow> pyval \<Rightarrow> pyval option" where
  "validate_value lx TAny v = Some v"
| "validate_value lx TStr v = (case v of PStr s \<Rightarrow> Some (PStr s) | _ \<Rightarrow> None)"
| "validate_value lx TBool v =
     (case v of PBool b \<Rightarrow> Some (PBool b) | _ \<Rightarrow> map_option PBool (lax_bool lx v))"
| "validate_value lx TInt v =
     (case v of PInt n \<Rightarrow> Some (PInt n) | _ \<Rightarrow> map_option PInt (lax_int lx v))"
| "validate_value lx (TLiteral ls) v =
     (case v of PStr s \<Rightarrow> if s \<in> set ls then Some (PStr s) else None | _ \<Rightarrow> None)"
| "validate_value lx (TOptional t) v =
     (case v of PNone \<Rightarrow> Some PNone | _ \<Rightarrow> validate_value lx t v)"
| "validate_value lx (TList t) v =
     (case v of PList xs \<Rightarrow> map_option PList (those (map (validate_value lx t) xs))
      | _ \<Rightarrow> None)"
| "validate_value lx (TDict t) v =
     (case v of
        PDict kvs \<Rightarrow>
          map_option PDict
            (those (map (\<lambda>kv. map_option (Pair (fst kv)) (validate_value lx t (snd kv))) kvs))
      | _ \<Rightarrow> None)"

text \<open>The lax table that converts nothing, used where a concrete one is needed.\<close>

definition no_coercion :: lax where
  "no_coercion = \<lparr> lax_bool = (\<lambda>v. None), lax_int = (\<lambda>v. None) \<rparr>"

datatype verror = Missing string | Invalid string

text \<open>
  One field of the input dictionary: absent, it takes its default (which is not
  validated) or is reported missing; present, its value is validated.
\<close>

definition validate_field :: "lax \<Rightarrow> (string \<times> pyval) list \<Rightarrow> field \<Rightarrow> verror + pyval" where
  "validate_field lx d f =
     (case map_of d (fname f) of
        None \<Rightarrow> (case fdefault f of None \<Rightarrow> Inl (Missing (fname f)) | Some dv \<Rightarrow> Inr dv)
      | Some v \<Rightarrow>
          (case validate_value lx (ftype f) v of
             None \<Rightarrow> Inl (Invalid (fname f))
           | Some w \<Rightarrow> Inr w))"

definition field_names :: "model \<Rightarrow> string list" where
  "field_names m = map fname (model_fields m)"

text \<open>
  \<^verbatim>\<open>Model.model_validate(d)\<close> and \<^verbatim>\<open>Model(**d)\<close>: every field is validated, the
  errors of all fields are collected into one \<^verbatim>\<open>ValidationError\<close> (\<open>Inl\<close>), and
  without errors the instance is built. Keys that are not field names are dropped,
  or kept unvalidated in \<^verbatim>\<open>model_extra\<close> when the class allows extras.
\<close>

definition model_validate :: "lax \<Rightarrow> model \<Rightarrow> (string \<times> pyval) list \<Rightarrow> verror list + model_instance" where
  "model_validate lx m d =
     (let errs = List.map_filter
                   (\<lambda>f. case validate_field lx d f of Inl e \<Rightarrow> Some e | Inr v \<Rightarrow> None)
                   (model_fields m)
      in if errs \<noteq> [] then Inl errs
         else Inr \<lparr> inst_model = mname m,
                    inst_fields = map (\<lambda>f. (fname f, projr (validate_field lx d f))) (model_fields m),
                    inst_extra = (if extra_allow m
                                  then Some (filter (\<lambda>kv. fst kv \<notin> set (field_names m)) d)
                                  else None) \<rparr>)"

text \<open>
  \<^verbatim>\<open>instance.model_dump(exclude_none=True)\<close>: the fields, then the extras, without
  the entries whose value is \<^verbatim>\<open>None\<close>. The values themselves are dumped unchanged.
\<close>

definition model_dump_exclude_none :: "model_instance \<Rightarrow> (string \<times> pyval) list" where
  "model_dump_exclude_none inst =
     filter (\<lambda>kv. snd kv \<noteq> PNone)
       (inst_fields inst @ (case inst_extra inst of None \<Rightarrow> [] | Some ex \<Rightarrow> ex))"

text \<open>Attribute access on a declared field, and \<^verbatim>\<open>model_extra.get(name)\<close>.\<close>

definition field_value :: "model_instance \<Rightarrow> string \<Rightarrow> pyval option" where
  "field_value inst name = map_of (inst_fields inst) name"

definition model_extra_get :: "model_instance \<Rightarrow> string \<Rightarrow> pyval option" where
  "model_extra_get inst name =
     (case inst_extra inst of None \<Rightarrow> None | Some ex \<Rightarrow> map_of ex name)"

subsection \<open>The task classes\<close>

definition required :: "string \<Rightarrow> ftype \<Rightarrow> field" where
  "required n t = \<lparr> fname = n, ftype = t, fdefault = None \<rparr>"

definition with_default :: "string \<Rightarrow> ftype \<Rightarrow> pyval \<Rightarrow> field" where
  "with_default n t v = \<lparr> fname = n, ftype = t, fdefault = Some v \<rparr>"

definition task_model :: "string \<Rightarrow> field list \<Rightarrow> model" where
  "task_model n fs = \<lparr> mname = n, model_fields = fs, extra_allow = False \<rparr>"

text \<open>
  \<^verbatim>\<open>project_name\<close> of \<^verbatim>\<open>ImageToTextTask\<close> carries an alias equal to its own name,
  so the key it is read from and written to is its name, as for every other field.
\<close>

definition ImageToTextTask :: model where
  "ImageToTextTask = task_model ''ImageToTextTask''
     [ with_default ''type''
         (TLiteral [''ImageToTextTask'', ''ImageToTextTaskMuggle'', ''ImageToTextTaskM1''])
         (PStr ''ImageToTextTaskMuggle''),
       required ''body'' TStr,
       with_default ''project_name'' (TOptional TStr) PNone ]"

definition NoCaptchaTaskProxyless :: model where
  "NoCaptchaTaskProxyless = task_model ''NoCaptchaTaskProxyless''
     [ with_default ''type'' (TLiteral [''NoCaptchaTaskProxyless'', ''RecaptchaV2TaskProxyless''])
         (PStr ''NoCaptchaTaskProxyless''),
       required ''websiteURL'' TStr,
       required ''websiteKey'' TStr,
       with_default ''isInvisible'' TBool (PBool False) ]"

definition RecaptchaV2EnterpriseTaskProxyless :: model where
  "RecaptchaV2EnterpriseTaskProxyless = task_model ''RecaptchaV2EnterpriseTaskProxyless''
     [ with_default ''type'' (TLiteral [''RecaptchaV2EnterpriseTaskProxyless''])
         (PStr ''RecaptchaV2EnterpriseTaskProxyless''),
       required ''websiteURL'' TStr,
       required ''websiteKey'' TStr,
       with_default ''enterprisePayload'' (TOptional (TDict TAny)) PNone ]"

definition RecaptchaV3TaskProxyless :: model where
  "RecaptchaV3TaskProxyless = task_model ''RecaptchaV3TaskProxyless''
     [ with_default ''type'' (TLiteral [''RecaptchaV3TaskProxyless'', ''RecaptchaV3TaskProxylessM1''])
         (PStr ''RecaptchaV3TaskProxyless''),
       required ''websiteURL'' TStr,
       required ''websiteKey'' TStr,
       required ''pageAction'' TStr ]"

definition RecaptchaV3EnterpriseTask :: model where
  "RecaptchaV3EnterpriseTask = task_model ''RecaptchaV3EnterpriseTask''
     [ with_default ''type''
         (TLiteral [''RecaptchaV3EnterpriseTask'', ''RecaptchaV3EnterpriseTaskProxyless''])
         (PStr ''RecaptchaV3EnterpriseTask''),
       required ''websiteURL'' TStr,
       required ''websiteKey'' TStr,
       required ''pageAction'' TStr,
       with_default ''enterprisePayload'' (TOptional (TDict TAny)) PNone ]"

definition HCaptchaTaskProxyless :: model where
  "HCaptchaTaskProxyless = task_model ''HCaptchaTaskProxyless''
     [ with_default ''type'' (TLiteral [''HCaptchaTaskProxyless'']) (PStr ''HCaptchaTaskProxyless''),
       required ''websiteURL'' TStr,
       required ''websiteKey'' TStr ]"

definition HCaptchaClassification :: model where
  "HCaptchaClassification = task_model ''HCaptchaClassification''
     [ with_default ''type'' (TLiteral [''HCaptchaClassification''])
         (PStr ''HCaptchaClassification''),
       required ''queries'' (TList TStr),
       with_default ''question'' (TOptional TStr) PNone,
       with_default ''anchors'' (TOptional (TList TStr)) PNone ]"

definition ReCaptchaV2Classification :: model where
  "ReCaptchaV2Classification = task_model ''ReCaptchaV2Classification''
     [ with_default ''type'' (TLiteral [''ReCaptchaV2Classification''])
         (PStr ''ReCaptchaV2Classification''),
       required ''image'' TStr,
       required ''question'' TStr ]"

definition FunCaptchaClassification :: model where
  "FunCaptchaClassification = task_model ''FunCaptchaClassification''
     [ with_default ''type'' (TLiteral [''FunCaptchaClassification''])
         (PStr ''FunCaptchaClassification''),
       required ''images'' (TList TStr),
       required ''question'' TStr ]"

definition TurnstileTaskProxyless :: model where
  "TurnstileTaskProxyless = task_model ''TurnstileTaskProxyless''
     [ with_default ''type'' (TLiteral [''TurnstileTaskProxyless'', ''TurnstileTaskProxylessM1''])
         (PStr ''TurnstileTaskProxyless''),
       required ''websiteURL'' TStr,
       required ''websiteKey'' TStr ]"

definition CloudFlareTask :: model where
  "CloudFlareTask = task_model ''CloudFlareTask''
     [ with_default ''type'' (TLiteral [''CloudFlareTaskS2'', ''CloudFlareTaskS3''])
         (PStr ''CloudFlareTaskS3''),
       required ''websiteURL'' TStr,
       required ''proxy'' TStr,
       with_default ''userAgent'' (TOptional TStr) PNone,
       with_default ''waitLoad'' TBool (PBool False),
       with_default ''requiredCookies'' (TOptional (TList TStr)) PNone,
       with_default ''blockImage'' TBool (PBool False),
       with_default ''postData'' (TOptional (TDict TAny)) PNone ]"

text \<open>The members of the union \<^verbatim>\<open>Task\<close>, in source order.\<close>

definition Task :: "model list" where
  "Task =
     [ ImageToTextTask, NoCaptchaTaskProxyless, RecaptchaV2EnterpriseTaskProxyless,
       RecaptchaV3TaskProxyless, RecaptchaV3EnterpriseTask, HCaptchaTaskProxyless,
       HCaptchaClassification, ReCaptchaV2Classification, FunCaptchaClassification,
       TurnstileTaskProxyless, CloudFlareTask ]"

text \<open>The strings that the \<^verbatim>\<open>Literal\<close> annotation of a class's \<^verbatim>\<open>type\<close> field lists.\<close>

definition type_literals :: "model \<Rightarrow> string list" where
  "type_literals m =
     (case find (\<lambda>f. fname f = ''type'') (model_fields m) of
        None \<Rightarrow> []
      | Some f \<Rightarrow> (case ftype f of TLiteral ls \<Rightarrow> ls | _ \<Rightarrow> []))"

definition required_names :: "model \<Rightarrow> string list" where
  "required_names m = map fname (filter (\<lambda>f. fdefault f = None) (model_fields m))"

subsection \<open>The response classes\<close>

definition Solution :: model where
  "Solution =
     \<lparr> mname = ''Solution'',
       model_fields =
         [ with_default ''gRecaptchaResponse'' (TOptional TStr) PNone,
           with_default ''token'' (TOptional TStr) PNone,
           with_default ''text'' (TOptional TStr) PNone,
           with_default ''objects'' (TOptional (TList TInt)) PNone,
           with_default ''cookies'' (TOptional (TDict TStr)) PNone,
           with_default ''userAgent'' (TOptional TStr) PNone,
           with_default ''content'' (TOptional TStr) PNone ],
       extra_allow = True \<rparr>"

text \<open>
  The envelopes, after parsing: the three error fields that every response class
  declares, then the fields of its own. \<^verbatim>\<open>status\<close> is a \<^verbatim>\<open>Literal\<close> of two strings.
\<close>

datatype task_status = processing | ready

record envelope =
  errorId :: int
  errorCode :: "string option"
  errorDescription :: "string option"

record CreateTaskResponse = envelope +
  taskId :: "string option"

record TaskResultResponse = envelope +
  status :: "task_status option"
  solution :: "model_instance option"

section \<open>The client (client.py)\<close>

text \<open>
  What \<^verbatim>\<open>solve\<close> can raise: an exception of \<^verbatim>\<open>exceptions.py\<close>, or one that comes
  from outside the package (the HTTP client, the parsing of a reply, a cancelled wait),
  of which only a name is kept.
\<close>

datatype exn = ApiError api_exception | ExternalError string

text \<open>
  The collaborators, as the environment of a run. An HTTP exchange together with the
  parsing of its reply (\<^verbatim>\<open>_request\<close>, then \<^verbatim>\<open>model_validate\<close>) yields the parsed envelope
  or raises; the reply to the \<open>n\<close>-th \<^verbatim>\<open>getTaskResult\<close> request may depend on \<open>n\<close> and on
  the payload. The \<open>n\<close>-th \<^verbatim>\<open>asyncio.sleep\<close> returns, or raises. \<open>float_str\<close> is Python's
  formatting of a float inside an f-string. The requests and waits of a run are recorded
  as a list of events, in order.
\<close>

datatype event = Post string pyval | Sleep f64

record env =
  post_createTask :: "pyval \<Rightarrow> string + CreateTaskResponse"
  post_getTaskResult :: "nat \<Rightarrow> pyval \<Rightarrow> string + TaskResultResponse"
  sleep_raises :: "nat \<Rightarrow> f64 \<Rightarrow> string option"
  float_str :: "f64 \<Rightarrow> string"

record client =
  client_key :: string
  base_url :: string
  timeout :: f64

definition SOFT_ID :: string where
  "SOFT_ID = ''21471''"

definition create_task_payload :: "client \<Rightarrow> model_instance \<Rightarrow> pyval" where
  "create_task_payload c task =
     PDict [ (''clientKey'', PStr (client_key c)),
             (''task'', PDict (model_dump_exclude_none task)),
             (''softId'', PStr SOFT_ID) ]"

definition create_task ::
  "env \<Rightarrow> client \<Rightarrow> model_instance \<Rightarrow> (exn + CreateTaskResponse) \<times> event list" where
  "create_task ev c task =
     (let payload = create_task_payload c task;
          evs = [Post (base_url c @ ''/createTask'') payload]
      in case post_createTask ev payload of
           Inl x \<Rightarrow> (Inl (ExternalError x), evs)
         | Inr response \<Rightarrow>
             (case raise_for_error (errorId response) (errorCode response)
                     (errorDescription response) of
                Inl e \<Rightarrow> (Inl (ApiError e), evs)
              | Inr u \<Rightarrow> (Inr response, evs)))"

definition get_task_result_payload :: "client \<Rightarrow> string \<Rightarrow> pyval" where
  "get_task_result_payload c task_id =
     PDict [ (''clientKey'', PStr (client_key c)), (''taskId'', PStr task_id) ]"

definition get_task_result ::
  "env \<Rightarrow> client \<Rightarrow> nat \<Rightarrow> string \<Rightarrow> (exn + TaskResultResponse) \<times> event list" where
  "get_task_result ev c n task_id =
     (let payload = get_task_result_payload c task_id;
          evs = [Post (base_url c @ ''/getTaskResult'') payload]
      in case post_getTaskResult ev n payload of
           Inl x \<Rightarrow> (Inl (ExternalError x), evs)
         | Inr response \<Rightarrow>
             (case raise_for_error (errorId response) (errorCode response)
                     (errorDescription response) of
                Inl e \<Rightarrow> (Inl (ApiError e), evs)
              | Inr u \<Rightarrow> (Inr response, evs)))"

text \<open>
  The two descriptions that \<^verbatim>\<open>solve\<close> writes, as UTF-8 bytes: the text of the
  missing-identifier error, and the f-string of the timeout error around the task
  identifier and the timeout.
\<close>

definition no_task_id_text :: string where
  "no_task_id_text = ''createTask '' @ [CHR 0xE6, CHR 0x9C, CHR 0xAA, CHR 0xE8, CHR 0xBF, CHR 0x94, CHR 0xE5, CHR 0x9B, CHR 0x9E, CHR 0xE4, CHR 0xBB, CHR 0xBB, CHR 0xE5, CHR 0x8A, CHR 0xA1] @ '' ID''"

definition timeout_text :: "env \<Rightarrow> string \<Rightarrow> f64 \<Rightarrow> string" where
  "timeout_text ev task_id tmo =
     [CHR 0xE4, CHR 0xBB, CHR 0xBB, CHR 0xE5, CHR 0x8A, CHR 0xA1] @ '' '' @ task_id @ '' '' @ [CHR 0xE5, CHR 0x9C, CHR 0xA8] @ '' '' @ float_str ev tmo @ '' '' @ [CHR 0xE7, CHR 0xA7, CHR 0x92, CHR 0xE5, CHR 0x90, CHR 0x8E, CHR 0xE8, CHR 0xB6, CHR 0x85, CHR 0xE6, CHR 0x97, CHR 0xB6]"

definition timeout_error :: "env \<Rightarrow> string \<Rightarrow> f64 \<Rightarrow> exn" where
  "timeout_error ev task_id tmo =
     ApiError (make_exception TaskTimeoutError 1 (Some ''ERROR_TASK_TIMEOUT'')
                 (Some (timeout_text ev task_id tmo)))"

definition no_task_id_error :: exn where
  "no_task_id_error =
     ApiError (make_exception YesCaptchaError 1 (Some ''ERROR_NO_TASK_ID'')
                 (Some no_task_id_text))"

text \<open>
  The polling loop of \<^verbatim>\<open>solve\<close>. \<open>elapsed\<close> is the loop variable, \<open>n\<close> counts the
  polls made so far and \<open>tr\<close> is the trace so far. The loop need not end (an interval
  of zero, say): a run that never returns has the value \<open>None\<close>.
\<close>

partial_function (option) poll_loop ::
  "env \<Rightarrow> client \<Rightarrow> string \<Rightarrow> f64 \<Rightarrow> f64 \<Rightarrow> f64 \<Rightarrow> nat \<Rightarrow> event list
     \<Rightarrow> ((exn + model_instance) \<times> event list) option" where
  "poll_loop ev c task_id poll_interval tmo elapsed n tr =
     (if f64_lt elapsed tmo then
        (case get_task_result ev c n task_id of
           (Inl e, evs) \<Rightarrow> Some (Inl e, tr @ evs)
         | (Inr result, evs) \<Rightarrow>
             if status result = Some ready \<and> solution result \<noteq> None
             then Some (Inr (the (solution result)), tr @ evs)
             else
               (case sleep_raises ev n poll_interval of
                  Some x \<Rightarrow> Some (Inl (ExternalError x), tr @ evs @ [Sleep poll_interval])
                | None \<Rightarrow>
                    poll_loop ev c task_id poll_interval tmo (f64_add elapsed poll_interval)
                      (Suc n) (tr @ evs @ [Sleep poll_interval])))
      else Some (Inl (timeout_error ev task_id tmo), tr))"

text \<open>
  \<^verbatim>\<open>solve(task, poll_interval, timeout)\<close>; an argument left out is \<open>None\<close> and takes
  its default, \<^verbatim>\<open>3.0\<close> for the interval and the client's own timeout for the timeout.
\<close>

definition solve ::
  "env \<Rightarrow> client \<Rightarrow> model_instance \<Rightarrow> f64 option \<Rightarrow> f64 option
     \<Rightarrow> ((exn + model_instance) \<times> event list) option" where
  "solve ev c task poll_interval_arg timeout_arg =
     (let poll_interval = (case poll_interval_arg of None \<Rightarrow> f64_3 | Some p \<Rightarrow> p);
          tmo = (case timeout_arg of None \<Rightarrow> timeout c | Some t \<Rightarrow> t)
      in case create_task ev c task of
           (Inl e, evs) \<Rightarrow> Some (Inl e, evs)
         | (Inr create_response, evs) \<Rightarrow>
             if \<not> truthy_str (taskId create_response) then Some (Inl no_task_id_error, evs)
             else poll_loop ev c (the (taskId create_response)) poll_interval tmo f64_zero 0 evs)"

section \<open>Runs of solve\<close>

text \<open>
  The vocabulary of the statements about \<^verbatim>\<open>solve\<close>. \<open>elapsed_after iv k\<close> is the value
  of the loop variable \<^verbatim>\<open>elapsed\<close> after \<open>k\<close> rounds: \<^verbatim>\<open>0.0\<close>, then the interval added
  once per round. \<open>rounds c task_id iv n\<close> is the trace of \<open>n\<close> rounds, each a poll
  followed by a wait. \<open>pending_round\<close> says that round \<open>k\<close> goes through: the poll
  is answered without an error and without a ready solution, and the wait returns.
\<close>

fun elapsed_after :: "f64 \<Rightarrow> nat \<Rightarrow> f64" where
  "elapsed_after iv 0 = f64_zero"
| "elapsed_after iv (Suc k) = f64_add (elapsed_after iv k) iv"

definition create_event :: "client \<Rightarrow> model_instance \<Rightarrow> event" where
  "create_event c task = Post (base_url c @ ''/createTask'') (create_task_payload c task)"

definition poll_event :: "client \<Rightarrow> string \<Rightarrow> event" where
  "poll_event c task_id =
     Post (base_url c @ ''/getTaskResult'') (get_task_result_payload c task_id)"

fun rounds :: "client \<Rightarrow> string \<Rightarrow> f64 \<Rightarrow> nat \<Rightarrow> event list" where
  "rounds c task_id iv 0 = []"
| "rounds c task_id iv (Suc n) = rounds c task_id iv n @ [poll_event c task_id, Sleep iv]"

definition not_ready :: "TaskResultResponse \<Rightarrow> bool" where
  "not_ready r = (\<not> (status r = Some ready \<and> solution r \<noteq> None))"

definition pending_round :: "env \<Rightarrow> client \<Rightarrow> string \<Rightarrow> f64 \<Rightarrow> nat \<Rightarrow> bool" where
  "pending_round ev c task_id iv k =
     ((case post_getTaskResult ev k (get_task_result_payload c task_id) of
         Inl x \<Rightarrow> False
       | Inr r \<Rightarrow> errorId r = 0 \<and> not_ready r)
      \<and> sleep_raises ev k iv = None)"

text \<open>
  \<open>created ev c task tid\<close>: the \<^verbatim>\<open>createTask\<close> exchange succeeds with \<open>errorId = 0\<close> and
  the reply's \<^verbatim>\<open>taskId\<close> is \<open>tid\<close> (\<open>None\<close> when the reply has none).
\<close>

definition created :: "env \<Rightarrow> client \<Rightarrow> model_instance \<Rightarrow> string option \<Rightarrow> bool" where
  "created ev c task tid =
     (case post_createTask ev (create_task_payload c task) of
        Inl x \<Rightarrow> False
      | Inr cr \<Rightarrow> errorId cr = 0 \<and> taskId cr = tid)"

definition effective_interval :: "f64 option \<Rightarrow> f64" where
  "effective_interval a = (case a of None \<Rightarrow> f64_3 | Some p \<Rightarrow> p)"

definition effective_timeout :: "client \<Rightarrow> f64 option \<Rightarrow> f64" where
  "effective_timeout c a = (case a of None \<Rightarrow> timeout c | Some t \<Rightarrow> t)"

text \<open>The number of \<^verbatim>\<open>getTaskResult\<close> requests and of waits in a trace.\<close>

fun is_poll :: "client \<Rightarrow> event \<Rightarrow> bool" where
  "is_poll c (Post u p) = (u = base_url c @ ''/getTaskResult'')"
| "is_poll c (Sleep d) = False"

fun is_sleep :: "event \<Rightarrow> bool" where
  "is_sleep (Post u p) = False"
| "is_sleep (Sleep d) = True"

definition poll_count :: "client \<Rightarrow> event list \<Rightarrow> nat" where
  "poll_count c tr = length (filter (is_poll c) tr)"

definition sleep_count :: "event list \<Rightarrow> nat" where
  "sleep_count tr = length (filter is_sleep tr)"

subsection \<open>The scenarios of the specification\<close>

definition scenario_client :: client where
  "scenario_client =
     \<lparr> client_key = ''test-key-12345'', base_url = ''https://api.yescaptcha.com'',
       timeout = f64_120 \<rparr>"

definition turnstile_task :: model_instance where
  "turnstile_task =
     \<lparr> inst_model = ''TurnstileTaskProxyless'',
       inst_fields = [ (''type'', PStr ''TurnstileTaskProxyless''),
                       (''websiteURL'', PStr ''https://example.com''),
                       (''websiteKey'', PStr ''0x4AAAAAAAB...'') ],
       inst_extra = None \<rparr>"

definition solved_solution :: model_instance where
  "solved_solution =
     \<lparr> inst_model = ''Solution'',
       inst_fields = [ (''gRecaptchaResponse'', PNone), (''token'', PStr ''solved-token-xyz''),
                       (''text'', PNone), (''objects'', PNone), (''cookies'', PNone),
                       (''userAgent'', PNone), (''content'', PNone) ],
       inst_extra = Some [] \<rparr>"

definition created_reply :: "string option \<Rightarrow> CreateTaskResponse" where
  "created_reply tid =
     \<lparr> errorId = 0, errorCode = None, errorDescription = None, taskId = tid \<rparr>"

definition processing_reply :: TaskResultResponse where
  "processing_reply =
     \<lparr> errorId = 0, errorCode = None, errorDescription = None,
       status = Some processing, solution = None \<rparr>"

definition ready_reply :: TaskResultResponse where
  "ready_reply =
     \<lparr> errorId = 0, errorCode = None, errorDescription = None,
       status = Some ready, solution = Some solved_solution \<rparr>"

definition scenario_float_str :: "f64 \<Rightarrow> string" where
  "scenario_float_str x =
     (if x = f64_0_3 then ''0.3'' else if x = f64_5 then ''5.0'' else ''120.0'')"

text \<open>
  \<open>ready_after_env m\<close>: the task is created as \<^verbatim>\<open>poll-task-123\<close>, the first \<open>m\<close> polls
  answer \<^verbatim>\<open>processing\<close>, every later one \<^verbatim>\<open>ready\<close> with the solution.
  \<open>always_processing_env tid\<close>: the reply to \<^verbatim>\<open>createTask\<close> carries \<open>tid\<close> and every poll
  answers \<^verbatim>\<open>processing\<close>.
\<close>

definition ready_after_env :: "nat \<Rightarrow> env" where
  "ready_after_env m =
     \<lparr> post_createTask = (\<lambda>p. Inr (created_reply (Some ''poll-task-123''))),
       post_getTaskResult = (\<lambda>n p. Inr (if n < m then processing_reply else ready_reply)),
       sleep_raises = (\<lambda>n d. None),
       float_str = scenario_float_str \<rparr>"

definition always_processing_env :: "string option \<Rightarrow> env" where
  "always_processing_env tid =
     \<lparr> post_createTask = (\<lambda>p. Inr (created_reply tid)),
       post_getTaskResult = (\<lambda>n p. Inr processing_reply),
       sleep_raises = (\<lambda>n d. None),
       float_str = scenario_float_str \<rparr>"

subsection \<open>Unfolding the loop\<close>

lemma poll_loop_step:
  assumes "f64_lt el tmo" and "pending_round ev c tid iv i"
  shows "poll_loop ev c tid iv tmo el i tr
         = poll_loop ev c tid iv tmo (f64_add el iv) (Suc i) (tr @ [poll_event c tid, Sleep iv])"
  using assms
  by (subst poll_loop.simps)
     (auto simp: pending_round_def not_ready_def get_task_result_def raise_for_error_def
        poll_event_def Let_def split: sum.splits option.splits)

lemma poll_loop_rounds:
  assumes "\<forall>k<n. f64_lt (elapsed_after iv k) tmo \<and> pending_round ev c tid iv k"
  shows "poll_loop ev c tid iv tmo f64_zero 0 tr
         = poll_loop ev c tid iv tmo (elapsed_after iv n) n (tr @ rounds c tid iv n)"
  using assms
proof (induction n)
  case 0
  then show ?case by simp
next
  case (Suc n)
  then have "poll_loop ev c tid iv tmo f64_zero 0 tr
         = poll_loop ev c tid iv tmo (elapsed_after iv n) n (tr @ rounds c tid iv n)"
    by simp
  also have "\<dots> = poll_loop ev c tid iv tmo (f64_add (elapsed_after iv n) iv) (Suc n)
                     ((tr @ rounds c tid iv n) @ [poll_event c tid, Sleep iv])"
    using Suc.prems by (intro poll_loop_step) auto
  finally show ?case by simp
qed

lemma poll_loop_timeout:
  assumes "\<not> f64_lt el tmo"
  shows "poll_loop ev c tid iv tmo el i tr = Some (Inl (timeout_error ev tid tmo), tr)"
  using assms by (subst poll_loop.simps) simp

lemma poll_loop_ready:
  assumes "f64_lt el tmo"
    and "post_getTaskResult ev i (get_task_result_payload c tid) = Inr r"
    and "errorId r = 0" and "status r = Some ready" and "solution r = Some sol"
  shows "poll_loop ev c tid iv tmo el i tr = Some (Inr sol, tr @ [poll_event c tid])"
  using assms
  by (subst poll_loop.simps)
     (simp add: get_task_result_def raise_for_error_def poll_event_def Let_def)

lemma solve_created:
  assumes "created ev c task (Some tid)" and "tid \<noteq> []"
  shows "solve ev c task ia ta
         = poll_loop ev c tid (effective_interval ia) (effective_timeout c ta) f64_zero 0
             [create_event c task]"
  using assms
  by (auto simp: solve_def created_def create_task_def raise_for_error_def Let_def
      create_event_def effective_interval_def effective_timeout_def split: sum.splits)

lemma poll_count_Nil [simp]: "poll_count c [] = 0"
  by (simp add: poll_count_def)

lemma sleep_count_Nil [simp]: "sleep_count [] = 0"
  by (simp add: sleep_count_def)

lemma poll_count_rounds [simp]: "poll_count c (rounds c tid iv n) = n"
  by (induction n) (simp_all add: poll_count_def poll_event_def)

lemma sleep_count_rounds [simp]: "sleep_count (rounds c tid iv n) = n"
  by (induction n) (simp_all add: sleep_count_def poll_event_def)

lemma poll_count_append [simp]: "poll_count c (xs @ ys) = poll_count c xs + poll_count c ys"
  by (simp add: poll_count_def)

lemma sleep_count_append [simp]: "sleep_count (xs @ ys) = sleep_count xs + sleep_count ys"
  by (simp add: sleep_count_def)

lemma poll_count_Cons_create [simp]:
  "poll_count c (create_event c task # tr) = poll_count c tr"
  by (simp add: poll_count_def create_event_def)

lemma sleep_count_Cons_Post [simp]:
  "sleep_count (create_event c task # tr) = sleep_count tr"
  "sleep_count (poll_event c tid # tr) = sleep_count tr"
  by (simp_all add: sleep_count_def create_event_def poll_event_def)

lemma poll_count_poll_event [simp]:
  "poll_count c (poll_event c tid # tr) = Suc (poll_count c tr)"
  by (simp add: poll_count_def poll_event_def)

lemma solve_ready_trace:
  assumes "created ev c task (Some tid)" and "tid \<noteq> []"
    and "iv = effective_interval ia" and "tmo = effective_timeout c ta"
    and "\<forall>k<n. f64_lt (elapsed_after iv k) tmo \<and> pending_round ev c tid iv k"
    and "f64_lt (elapsed_after iv n) tmo"
    and "post_getTaskResult ev n (get_task_result_payload c tid) = Inr r"
    and "errorId r = 0" and "status r = Some ready" and "solution r = Some sol"
  shows "solve ev c task ia ta
         = Some (Inr sol, create_event c task # rounds c tid iv n @ [poll_event c tid])"
proof -
  have "solve ev c task ia ta = poll_loop ev c tid iv tmo f64_zero 0 [create_event c task]"
    using assms(1-4) by (simp add: solve_created)
  also have "\<dots> = poll_loop ev c tid iv tmo (elapsed_after iv n) n
                     ([create_event c task] @ rounds c tid iv n)"
    using assms(5) by (rule poll_loop_rounds)
  also have "\<dots> = Some (Inr sol, ([create_event c task] @ rounds c tid iv n) @ [poll_event c tid])"
    using assms(6-10) by (rule poll_loop_ready)
  finally show ?thesis by simp
qed

lemma solve_timeout_trace:
  assumes "created ev c task (Some tid)" and "tid \<noteq> []"
    and "iv = effective_interval ia" and "tmo = effective_timeout c ta"
    and "\<forall>k<n. f64_lt (elapsed_after iv k) tmo \<and> pending_round ev c tid iv k"
    and "\<not> f64_lt (elapsed_after iv n) tmo"
  shows "solve ev c task ia ta
         = Some (Inl (timeout_error ev tid tmo), create_event c task # rounds c tid iv n)"
proof -
  have "solve ev c task ia ta = poll_loop ev c tid iv tmo f64_zero 0 [create_event c task]"
    using assms(1-4) by (simp add: solve_created)
  also have "\<dots> = poll_loop ev c tid iv tmo (elapsed_after iv n) n
                     ([create_event c task] @ rounds c tid iv n)"
    using assms(5) by (rule poll_loop_rounds)
  also have "\<dots> = Some (Inl (timeout_error ev tid tmo), [create_event c task] @ rounds c tid iv n)"
    using assms(6) by (rule poll_loop_timeout)
  finally show ?thesis by simp
qed

lemma f64_le_zero_not_lt: "f64_le t f64_zero \<Longrightarrow> \<not> f64_lt f64_zero t"
  by (cases t) (auto simp: f64_zero_def Let_def signed_int_def min.commute)

subsection \<open>Facts of the scenarios\<close>

lemma less_3_cases: "(k::nat) < 3 \<longleftrightarrow> k = 0 \<or> k = Suc 0 \<or> k = Suc (Suc 0)"
  by auto

lemma elapsed_0_1_lt_5:
  "f64_lt (elapsed_after f64_0_1 0) f64_5"
  "f64_lt (elapsed_after f64_0_1 (Suc 0)) f64_5"
  "f64_lt (elapsed_after f64_0_1 (Suc (Suc 0))) f64_5"
  "f64_lt (elapsed_after f64_0_1 (Suc (Suc (Suc 0)))) f64_5"
  by code_simp+

lemma elapsed_0_1_vs_0_3:
  "f64_lt (elapsed_after f64_0_1 0) f64_0_3"
  "f64_lt (elapsed_after f64_0_1 (Suc 0)) f64_0_3"
  "f64_lt (elapsed_after f64_0_1 (Suc (Suc 0))) f64_0_3"
  "\<not> f64_lt (elapsed_after f64_0_1 (Suc (Suc (Suc 0)))) f64_0_3"
  by code_simp+

lemma created_ready_after: "created (ready_after_env m) c task (Some ''poll-task-123'')"
  by (simp add: created_def ready_after_env_def created_reply_def)

lemma pending_ready_after: "k < m \<Longrightarrow> pending_round (ready_after_env m) c tid iv k"
  by (simp add: pending_round_def ready_after_env_def processing_reply_def not_ready_def)

lemma created_always_processing: "created (always_processing_env tid) c task tid"
  by (simp add: created_def always_processing_env_def created_reply_def)

lemma pending_always_processing: "pending_round (always_processing_env t) c tid iv k"
  by (simp add: pending_round_def always_processing_env_def processing_reply_def not_ready_def)

lemma solve_ready_after_3:
  "solve (ready_after_env 3) scenario_client turnstile_task (Some f64_0_1) (Some f64_5)
   = Some (Inr solved_solution,
       create_event scenario_client turnstile_task
         # rounds scenario_client ''poll-task-123'' f64_0_1 3
         @ [poll_event scenario_client ''poll-task-123''])"
proof (rule solve_ready_trace)
  show "created (ready_after_env 3) scenario_client turnstile_task (Some ''poll-task-123'')"
    by (rule created_ready_after)
  show "\<forall>k<3. f64_lt (elapsed_after f64_0_1 k) f64_5
          \<and> pending_round (ready_after_env 3) scenario_client ''poll-task-123'' f64_0_1 k"
    using elapsed_0_1_lt_5 by (auto simp: less_3_cases pending_ready_after)
  show "f64_lt (elapsed_after f64_0_1 3) f64_5"
    using elapsed_0_1_lt_5(4) by (simp add: numeral_3_eq_3)
  show "post_getTaskResult (ready_after_env 3) 3
        (get_task_result_payload scenario_client ''poll-task-123'') = Inr ready_reply"
    by (simp add: ready_after_env_def)
qed (simp_all add: ready_reply_def effective_interval_def effective_timeout_def)

subsection \<open>The events of a run\<close>

lemma get_task_result_events: "snd (get_task_result ev c n tid) = [poll_event c tid]"
  by (simp add: get_task_result_def poll_event_def Let_def split: sum.splits)

lemma poll_loop_trace_aux:
  assumes "poll_loop ev c tid iv tmo el i tr = Some y"
  shows "\<exists>rest. snd y = tr @ rest \<and> (\<forall>e\<in>set rest. e = poll_event c tid \<or> e = Sleep iv)"
  using assms
proof (induction ev c tid iv tmo el i tr y
    rule: poll_loop.raw_induct [rotated 1, consumes 1, case_names step])
  case (step poll_loop' ev c tid iv tmo el i tr y)
  show ?case
  proof (cases "f64_lt el tmo")
    case False
    with step(2) show ?thesis by auto
  next
    case True
    obtain x evs where g: "get_task_result ev c i tid = (x, evs)"
      by (cases "get_task_result ev c i tid")
    then have evs: "evs = [poll_event c tid]"
      using get_task_result_events [of ev c i tid] by simp
    show ?thesis
    proof (cases x)
      case (Inl e)
      with step(2) True g evs show ?thesis by auto
    next
      case (Inr result)
      show ?thesis
      proof (cases "status result = Some ready \<and> solution result \<noteq> None")
        case True
        with step(2) \<open>f64_lt el tmo\<close> g evs Inr show ?thesis by auto
      next
        case nr: False
        show ?thesis
        proof (cases "sleep_raises ev i iv")
          case (Some s)
          with step(2) \<open>f64_lt el tmo\<close> g evs Inr nr show ?thesis by auto
        next
          case None
          with step(2) \<open>f64_lt el tmo\<close> g evs Inr nr
          have "poll_loop' ev c tid iv tmo (f64_add el iv) (Suc i) (tr @ evs @ [Sleep iv])
                = Some y"
            by auto
          from step(1) [OF this] evs show ?thesis by auto
        qed
      qed
    qed
  qed
qed

lemma poll_loop_first_poll:
  assumes "poll_loop ev c tid iv tmo el i tr = Some y" and "f64_lt el tmo"
  shows "\<exists>rest. snd y = tr @ poll_event c tid # rest"
proof -
  obtain x evs where g: "get_task_result ev c i tid = (x, evs)"
    by (cases "get_task_result ev c i tid")
  then have evs: "evs = [poll_event c tid]"
    using get_task_result_events [of ev c i tid] by simp
  show ?thesis
  proof (cases "\<exists>result. x = Inr result \<and> not_ready result \<and> sleep_raises ev i iv = None")
    case True
    then have "poll_loop ev c tid iv tmo (f64_add el iv) (Suc i) (tr @ evs @ [Sleep iv]) = Some y"
      using assms g by (subst (asm) poll_loop.simps) (auto simp: not_ready_def)
    from poll_loop_trace_aux [OF this] evs show ?thesis by auto
  next
    case False
    then show ?thesis
      using assms g evs
      by (subst (asm) poll_loop.simps)
         (auto simp: not_ready_def split: sum.splits option.splits if_splits)
  qed
qed

lemma no_task_id_error_code:
  "\<exists>e. no_task_id_error = ApiError e \<and> exc_kind e = YesCaptchaError
       \<and> error_id e = 1 \<and> error_code e = Some ''ERROR_NO_TASK_ID''"
  by (simp add: no_task_id_error_def make_exception_def)

lemma solve_no_task_id:
  assumes "created ev c task tid" and "\<not> truthy_str tid"
  shows "solve ev c task ia ta = Some (Inl no_task_id_error, [create_event c task])"
  using assms
  by (auto simp: solve_def created_def create_task_def raise_for_error_def Let_def
      create_event_def split: sum.splits)


section \<open>Properties of solve\<close>

text \<open>
  Claim C3, as amended. When the task was created with a non-empty identifier, the
  first \<open>n\<close> rounds went through without a ready solution, and the next poll (made
  while \<open>elapsed\<close> is still below the timeout) answers \<^verbatim>\<open>ready\<close> with a solution,
  \<^verbatim>\<open>solve\<close> returns exactly that solution. The trace of the run ends with that poll:
  nothing is requested and nothing is waited for after it, so the run makes \<open>n + 1\<close>
  polls and \<open>n\<close> waits. In the scenario of the specification (three \<^verbatim>\<open>processing\<close>
  replies, then \<^verbatim>\<open>ready\<close>, interval 0.1, timeout 5) this is the witness below: the
  token is returned by the fourth poll, after three waits.
\<close>

theorem solve_ready_returns_at_once:
  assumes "created ev c task (Some tid)" and "tid \<noteq> []"
    and "iv = effective_interval ia" and "tmo = effective_timeout c ta"
    and "\<forall>k<n. f64_lt (elapsed_after iv k) tmo \<and> pending_round ev c tid iv k"
    and "f64_lt (elapsed_after iv n) tmo"
    and "post_getTaskResult ev n (get_task_result_payload c tid) = Inr r"
    and "errorId r = 0" and "status r = Some ready" and "solution r = Some sol"
  shows "\<exists>tr. solve ev c task ia ta = Some (Inr sol, tr)
            \<and> tr = create_event c task # rounds c tid iv n @ [poll_event c tid]
            \<and> poll_count c tr = n + 1 \<and> sleep_count tr = n"
  using solve_ready_trace [OF assms] by simp

theorem solve_ready_returns_at_once_witness:
  "created (ready_after_env 3) scenario_client turnstile_task (Some ''poll-task-123'')
   \<and> ''poll-task-123'' \<noteq> []
   \<and> f64_lt (elapsed_after f64_0_1 0) f64_5
   \<and> pending_round (ready_after_env 3) scenario_client ''poll-task-123'' f64_0_1 0
   \<and> f64_lt (elapsed_after f64_0_1 (Suc 0)) f64_5
   \<and> pending_round (ready_after_env 3) scenario_client ''poll-task-123'' f64_0_1 (Suc 0)
   \<and> f64_lt (elapsed_after f64_0_1 (Suc (Suc 0))) f64_5
   \<and> pending_round (ready_after_env 3) scenario_client ''poll-task-123'' f64_0_1 (Suc (Suc 0))
   \<and> f64_lt (elapsed_after f64_0_1 3) f64_5
   \<and> post_getTaskResult (ready_after_env 3) 3
        (get_task_result_payload scenario_client ''poll-task-123'') = Inr ready_reply
   \<and> errorId ready_reply = 0 \<and> status ready_reply = Some ready
   \<and> solution ready_reply = Some solved_solution
   \<and> field_value solved_solution ''token'' = Some (PStr ''solved-token-xyz'')
   \<and> (\<exists>tr. solve (ready_after_env 3) scenario_client turnstile_task (Some f64_0_1) (Some f64_5)
             = Some (Inr solved_solution, tr)
          \<and> tr = create_event scenario_client turnstile_task
                 # rounds scenario_client ''poll-task-123'' f64_0_1 3
                 @ [poll_event scenario_client ''poll-task-123'']
          \<and> poll_count scenario_client tr = 3 + 1 \<and> sleep_count tr = 3)"
proof -
  have c: "created (ready_after_env 3) scenario_client turnstile_task (Some ''poll-task-123'')"
    by (rule created_ready_after)
  have ne: "''poll-task-123'' \<noteq> []"
    by simp
  have p0: "pending_round (ready_after_env 3) scenario_client ''poll-task-123'' f64_0_1 0"
    and p1: "pending_round (ready_after_env 3) scenario_client ''poll-task-123'' f64_0_1 (Suc 0)"
    and p2: "pending_round (ready_after_env 3) scenario_client ''poll-task-123'' f64_0_1
               (Suc (Suc 0))"
    by (simp_all add: pending_ready_after)
  have p: "\<forall>k<3. f64_lt (elapsed_after f64_0_1 k) f64_5
          \<and> pending_round (ready_after_env 3) scenario_client ''poll-task-123'' f64_0_1 k"
    using elapsed_0_1_lt_5 by (auto simp: less_3_cases pending_ready_after)
  have l: "f64_lt (elapsed_after f64_0_1 3) f64_5"
    using elapsed_0_1_lt_5(4) by (simp add: numeral_3_eq_3)
  have g: "post_getTaskResult (ready_after_env 3) 3
        (get_task_result_payload scenario_client ''poll-task-123'') = Inr ready_reply"
    by (simp add: ready_after_env_def)
  have r: "errorId ready_reply = 0" "status ready_reply = Some ready"
    "solution ready_reply = Some solved_solution"
    by (simp_all add: ready_reply_def)
  have f: "field_value solved_solution ''token'' = Some (PStr ''solved-token-xyz'')"
    by (simp add: field_value_def solved_solution_def)
  have e: "f64_0_1 = effective_interval (Some f64_0_1)"
    "f64_5 = effective_timeout scenario_client (Some f64_5)"
    by (simp_all add: effective_interval_def effective_timeout_def)
  note concl = solve_ready_returns_at_once [OF c ne e p l g r]
  show ?thesis
    by (intro conjI c ne p0 p1 p2 l g r f concl elapsed_0_1_lt_5)
qed

text \<open>
  The scenario as claim C3 words it (the solution after exactly three polls) does not
  hold: with three \<^verbatim>\<open>processing\<close> replies before the \<^verbatim>\<open>ready\<close> one, no run of
  \<^verbatim>\<open>solve\<close> returns the token with three polls made.
\<close>

theorem solve_three_processing_counterexample:
  "\<not> (\<exists>sol tr.
         solve (ready_after_env 3) scenario_client turnstile_task (Some f64_0_1) (Some f64_5)
           = Some (Inr sol, tr)
         \<and> field_value sol ''token'' = Some (PStr ''solved-token-xyz'')
         \<and> poll_count scenario_client tr = 3)"
  by (simp add: solve_ready_after_3)

subsection \<open>Runs that never return\<close>

lemma funpow_add_shift:
  "((\<lambda>x. f64_add x iv) ^^ k) (f64_add el iv) = f64_add (((\<lambda>x. f64_add x iv) ^^ k) el) iv"
  by (induction k) simp_all

lemma poll_loop_never_returns_aux:
  assumes "poll_loop ev c tid iv tmo el i tr = Some y"
  shows "\<not> (\<forall>k. f64_lt (((\<lambda>x. f64_add x iv) ^^ k) el) tmo \<and> pending_round ev c tid iv (i + k))"
  using assms
proof (induction ev c tid iv tmo el i tr y
    rule: poll_loop.raw_induct [rotated 1, consumes 1, case_names step])
  case (step poll_loop' ev c tid iv tmo el i tr y)
  show ?case
  proof
    assume a: "\<forall>k. f64_lt (((\<lambda>x. f64_add x iv) ^^ k) el) tmo \<and> pending_round ev c tid iv (i + k)"
    from a [rule_format, of 0] have lt: "f64_lt el tmo" and p: "pending_round ev c tid iv i"
      by simp_all
    from p obtain r where r: "post_getTaskResult ev i (get_task_result_payload c tid) = Inr r"
      "errorId r = 0" "not_ready r" "sleep_raises ev i iv = None"
      by (auto simp: pending_round_def split: sum.splits)
    with step(2) lt
    have "poll_loop' ev c tid iv tmo (f64_add el iv) (Suc i)
            (tr @ [poll_event c tid] @ [Sleep iv]) = Some y"
      by (auto simp: get_task_result_def raise_for_error_def Let_def not_ready_def poll_event_def)
    from step(1) [OF this]
    have "\<not> (\<forall>k. f64_lt (((\<lambda>x. f64_add x iv) ^^ k) (f64_add el iv)) tmo
               \<and> pending_round ev c tid iv (Suc i + k))" .
    moreover have "\<forall>k. f64_lt (((\<lambda>x. f64_add x iv) ^^ k) (f64_add el iv)) tmo
               \<and> pending_round ev c tid iv (Suc i + k)"
    proof
      fix k
      from a [rule_format, of "Suc k"]
      show "f64_lt (((\<lambda>x. f64_add x iv) ^^ k) (f64_add el iv)) tmo
               \<and> pending_round ev c tid iv (Suc i + k)"
        by (simp add: funpow_add_shift)
    qed
    ultimately show False by blast
  qed
qed

lemma elapsed_after_funpow: "elapsed_after iv k = ((\<lambda>x. f64_add x iv) ^^ k) f64_zero"
  by (induction k) simp_all

lemma poll_loop_never_returns:
  assumes "\<forall>k. f64_lt (elapsed_after iv k) tmo \<and> pending_round ev c tid iv k"
  shows "poll_loop ev c tid iv tmo f64_zero 0 tr = None"
proof (cases "poll_loop ev c tid iv tmo f64_zero 0 tr")
  case None
  then show ?thesis .
next
  case (Some y)
  from poll_loop_never_returns_aux [OF this] assms show ?thesis
    by (simp add: elapsed_after_funpow)
qed

lemma solve_never_returns:
  assumes "created ev c task (Some tid)" and "tid \<noteq> []"
    and "iv = effective_interval ia" and "tmo = effective_timeout c ta"
    and "\<forall>k. f64_lt (elapsed_after iv k) tmo \<and> pending_round ev c tid iv k"
  shows "solve ev c task ia ta = None"
  using assms by (simp add: solve_created poll_loop_never_returns)

lemma elapsed_zero_interval: "elapsed_after f64_zero k = f64_zero"
  by (induction k) (simp_all add: f64_zero_def signed_int_def)

lemma solve_zero_interval:
  "solve (always_processing_env (Some ''timeout-task'')) scenario_client turnstile_task
     (Some f64_zero) (Some f64_5) = None"
proof (rule solve_never_returns)
  show "created (always_processing_env (Some ''timeout-task'')) scenario_client turnstile_task
          (Some ''timeout-task'')"
    by (rule created_always_processing)
  show "\<forall>k. f64_lt (elapsed_after f64_zero k) f64_5
          \<and> pending_round (always_processing_env (Some ''timeout-task'')) scenario_client
               ''timeout-task'' f64_zero k"
    using elapsed_0_1_lt_5(1) by (simp add: elapsed_zero_interval pending_always_processing)
qed (simp_all add: effective_interval_def effective_timeout_def)

text \<open>
  Claim C4, as amended. \<^verbatim>\<open>elapsed\<close> starts at zero and grows by the configured
  interval after every poll that brings no ready solution (\<open>elapsed_after\<close>; no clock is
  read), and the loop goes on while \<open>elapsed < timeout\<close>. For a task created with a
  non-empty identifier: when \<open>n\<close> rounds went through without a ready solution and
  \<open>elapsed\<close> after them is no longer below the timeout, \<^verbatim>\<open>solve\<close> raises
  \<open>TaskTimeoutError\<close> after exactly \<open>n\<close> polls, and the description of the error is
  built around the task identifier and the formatted timeout; when every round goes
  through without a ready solution and \<open>elapsed\<close> stays below the timeout for ever,
  \<^verbatim>\<open>solve\<close> never returns and raises nothing. The scenario of the specification
  (interval 0.1, timeout 0.3, every poll \<^verbatim>\<open>processing\<close>) is the witness: three polls.
\<close>

theorem solve_times_out:
  assumes "created ev c task (Some tid)" and "tid \<noteq> []"
    and "iv = effective_interval ia" and "tmo = effective_timeout c ta"
  shows "((\<forall>k<n. f64_lt (elapsed_after iv k) tmo \<and> pending_round ev c tid iv k)
            \<and> \<not> f64_lt (elapsed_after iv n) tmo \<longrightarrow>
          (\<exists>e tr pre mid post.
            solve ev c task ia ta = Some (Inl (ApiError e), tr)
            \<and> exc_kind e = TaskTimeoutError
            \<and> error_code e = Some ''ERROR_TASK_TIMEOUT''
            \<and> error_description e = Some (pre @ tid @ mid @ float_str ev tmo @ post)
            \<and> tr = create_event c task # rounds c tid iv n
            \<and> poll_count c tr = n \<and> sleep_count tr = n))
         \<and> ((\<forall>k. f64_lt (elapsed_after iv k) tmo \<and> pending_round ev c tid iv k) \<longrightarrow>
              solve ev c task ia ta = None)"
proof (intro conjI impI)
  assume a: "(\<forall>k<n. f64_lt (elapsed_after iv k) tmo \<and> pending_round ev c tid iv k)
            \<and> \<not> f64_lt (elapsed_after iv n) tmo"
  have "\<exists>pre mid post. timeout_text ev tid tmo = pre @ tid @ mid @ float_str ev tmo @ post"
    unfolding timeout_text_def
    by (rule exI [of _ "[CHR 0xE4, CHR 0xBB, CHR 0xBB, CHR 0xE5, CHR 0x8A, CHR 0xA1] @ '' ''"],
        rule exI [of _ "'' '' @ [CHR 0xE5, CHR 0x9C, CHR 0xA8] @ '' ''"],
        rule exI [of _ "'' '' @ [CHR 0xE7, CHR 0xA7, CHR 0x92, CHR 0xE5, CHR 0x90, CHR 0x8E,
                                  CHR 0xE8, CHR 0xB6, CHR 0x85, CHR 0xE6, CHR 0x97, CHR 0xB6]"])
       simp
  moreover from a have "solve ev c task ia ta
         = Some (Inl (timeout_error ev tid tmo), create_event c task # rounds c tid iv n)"
    using assms by (intro solve_timeout_trace) simp_all
  ultimately show "\<exists>e tr pre mid post.
            solve ev c task ia ta = Some (Inl (ApiError e), tr)
            \<and> exc_kind e = TaskTimeoutError
            \<and> error_code e = Some ''ERROR_TASK_TIMEOUT''
            \<and> error_description e = Some (pre @ tid @ mid @ float_str ev tmo @ post)
            \<and> tr = create_event c task # rounds c tid iv n
            \<and> poll_count c tr = n \<and> sleep_count tr = n"
    by (auto simp: timeout_error_def make_exception_def)
next
  assume "\<forall>k. f64_lt (elapsed_after iv k) tmo \<and> pending_round ev c tid iv k"
  with assms show "solve ev c task ia ta = None"
    by (intro solve_never_returns) simp_all
qed

theorem solve_times_out_witness:
  "created (always_processing_env (Some ''timeout-task'')) scenario_client turnstile_task
     (Some ''timeout-task'')
   \<and> ''timeout-task'' \<noteq> []
   \<and> f64_lt (elapsed_after f64_0_1 0) f64_0_3
   \<and> pending_round (always_processing_env (Some ''timeout-task'')) scenario_client
        ''timeout-task'' f64_0_1 0
   \<and> f64_lt (elapsed_after f64_0_1 (Suc 0)) f64_0_3
   \<and> pending_round (always_processing_env (Some ''timeout-task'')) scenario_client
        ''timeout-task'' f64_0_1 (Suc 0)
   \<and> f64_lt (elapsed_after f64_0_1 (Suc (Suc 0))) f64_0_3
   \<and> pending_round (always_processing_env (Some ''timeout-task'')) scenario_client
        ''timeout-task'' f64_0_1 (Suc (Suc 0))
   \<and> \<not> f64_lt (elapsed_after f64_0_1 3) f64_0_3
   \<and> float_str (always_processing_env (Some ''timeout-task'')) f64_0_3 = ''0.3''
   \<and> (\<exists>e tr pre mid post.
         solve (always_processing_env (Some ''timeout-task'')) scenario_client turnstile_task
           (Some f64_0_1) (Some f64_0_3) = Some (Inl (ApiError e), tr)
         \<and> exc_kind e = TaskTimeoutError
         \<and> error_code e = Some ''ERROR_TASK_TIMEOUT''
         \<and> error_description e
             = Some (pre @ ''timeout-task'' @ mid
                     @ float_str (always_processing_env (Some ''timeout-task'')) f64_0_3 @ post)
         \<and> tr = create_event scenario_client turnstile_task
                  # rounds scenario_client ''timeout-task'' f64_0_1 3
         \<and> poll_count scenario_client tr = 3 \<and> sleep_count tr = 3)"
proof -
  let ?ev = "always_processing_env (Some ''timeout-task'')"
  have c: "created ?ev scenario_client turnstile_task (Some ''timeout-task'')"
    by (rule created_always_processing)
  have ne: "''timeout-task'' \<noteq> []"
    by simp
  have p: "\<forall>k<3. f64_lt (elapsed_after f64_0_1 k) f64_0_3
          \<and> pending_round ?ev scenario_client ''timeout-task'' f64_0_1 k"
    using elapsed_0_1_vs_0_3 by (auto simp: less_3_cases pending_always_processing)
  have l: "\<not> f64_lt (elapsed_after f64_0_1 3) f64_0_3"
    using elapsed_0_1_vs_0_3(4) by (simp add: numeral_3_eq_3)
  have fs: "float_str ?ev f64_0_3 = ''0.3''"
    by (simp add: always_processing_env_def scenario_float_str_def)
  have e: "f64_0_1 = effective_interval (Some f64_0_1)"
    "f64_0_3 = effective_timeout scenario_client (Some f64_0_3)"
    by (simp_all add: effective_interval_def effective_timeout_def)
  note t = solve_times_out [OF c ne e, of 3]
  from t p l have concl: "\<exists>e tr pre mid post.
         solve ?ev scenario_client turnstile_task (Some f64_0_1) (Some f64_0_3)
           = Some (Inl (ApiError e), tr)
         \<and> exc_kind e = TaskTimeoutError
         \<and> error_code e = Some ''ERROR_TASK_TIMEOUT''
         \<and> error_description e
             = Some (pre @ ''timeout-task'' @ mid @ float_str ?ev f64_0_3 @ post)
         \<and> tr = create_event scenario_client turnstile_task
                  # rounds scenario_client ''timeout-task'' f64_0_1 3
         \<and> poll_count scenario_client tr = 3 \<and> sleep_count tr = 3"
    by blast
  show ?thesis
    by (intro conjI c ne l fs concl elapsed_0_1_vs_0_3 pending_always_processing)
qed

text \<open>
  Claim C4 as the specification words it, that the timeout error is raised whenever no
  poll ever returns ready, does not hold: with an interval of zero and a timeout of 5,
  every poll answering \<^verbatim>\<open>processing\<close>, \<^verbatim>\<open>elapsed\<close> stays at zero and \<^verbatim>\<open>solve\<close> never
  returns.
\<close>

theorem solve_zero_interval_counterexample:
  "(\<forall>n p. post_getTaskResult (always_processing_env (Some ''timeout-task'')) n p
            = Inr processing_reply)
   \<and> status processing_reply = Some processing
   \<and> solve (always_processing_env (Some ''timeout-task'')) scenario_client turnstile_task
       (Some f64_zero) (Some f64_5) = None
   \<and> \<not> (\<exists>e tr. solve (always_processing_env (Some ''timeout-task'')) scenario_client
                   turnstile_task (Some f64_zero) (Some f64_5) = Some (Inl (ApiError e), tr))"
proof (intro conjI)
  show "\<forall>n p. post_getTaskResult (always_processing_env (Some ''timeout-task'')) n p
            = Inr processing_reply"
    by (simp add: always_processing_env_def)
  show "status processing_reply = Some processing"
    by (simp add: processing_reply_def)
  show "solve (always_processing_env (Some ''timeout-task'')) scenario_client turnstile_task
       (Some f64_zero) (Some f64_5) = None"
    by (rule solve_zero_interval)
  then show "\<not> (\<exists>e tr. solve (always_processing_env (Some ''timeout-task'')) scenario_client
                   turnstile_task (Some f64_zero) (Some f64_5) = Some (Inl (ApiError e), tr))"
    by simp
qed

text \<open>The payload of the \<^verbatim>\<open>getTaskResult\<close> requests of the polling scenario.\<close>

definition scenario_poll_payload :: pyval where
  "scenario_poll_payload =
     PDict [(''clientKey'', PStr ''test-key-12345''), (''taskId'', PStr ''poll-task-123'')]"

text \<open>
  Claim C5. When the reply to \<^verbatim>\<open>createTask\<close> reports success (\<open>errorId = 0\<close>) and has no
  task identifier, \<^verbatim>\<open>solve\<close> raises the error whose code is \<^verbatim>\<open>ERROR_NO_TASK_ID\<close>
  and its trace holds the \<^verbatim>\<open>createTask\<close> request only: nothing is polled. When the
  reply has a (non-empty) identifier, the polls are \<^verbatim>\<open>getTaskResult\<close> requests whose
  payload is the client key and that identifier under \<^verbatim>\<open>taskId\<close>: as soon as the
  service answers \<^verbatim>\<open>ready\<close> to the request with that payload, after \<open>n\<close> rounds in
  which it answered that payload without a ready solution, \<^verbatim>\<open>solve\<close> returns, and the
  run consists of the \<^verbatim>\<open>createTask\<close> request and \<open>n + 1\<close> such requests with a wait
  between them. Moreover every event of any run that returns is, after the
  \<^verbatim>\<open>createTask\<close> request, such a request or a wait, and with a timeout above zero the
  first one is such a request. (An empty identifier is treated as a missing one.)
\<close>

theorem solve_task_identifier:
  "(created ev c task None \<longrightarrow>
      solve ev c task ia ta = Some (Inl no_task_id_error, [create_event c task])
      \<and> (\<exists>e. no_task_id_error = ApiError e \<and> exc_kind e = YesCaptchaError
             \<and> error_code e = Some ''ERROR_NO_TASK_ID''))
   \<and> poll_event c tid
       = Post (base_url c @ ''/getTaskResult'')
           (PDict [(''clientKey'', PStr (client_key c)), (''taskId'', PStr tid)])
   \<and> (created ev c task (Some tid) \<and> tid \<noteq> []
        \<and> (\<forall>k<n. f64_lt (elapsed_after (effective_interval ia) k) (effective_timeout c ta)
               \<and> (\<exists>p. post_getTaskResult ev k
                           (PDict [(''clientKey'', PStr (client_key c)), (''taskId'', PStr tid)])
                         = Inr p \<and> errorId p = 0 \<and> not_ready p)
               \<and> sleep_raises ev k (effective_interval ia) = None)
        \<and> f64_lt (elapsed_after (effective_interval ia) n) (effective_timeout c ta)
        \<and> post_getTaskResult ev n
             (PDict [(''clientKey'', PStr (client_key c)), (''taskId'', PStr tid)]) = Inr r
        \<and> errorId r = 0 \<and> status r = Some ready \<and> solution r = Some sol \<longrightarrow>
        solve ev c task ia ta
        = Some (Inr sol,
            create_event c task # rounds c tid (effective_interval ia) n @ [poll_event c tid]))
   \<and> (created ev c task (Some tid) \<and> solve ev c task ia ta = Some (res, tr) \<longrightarrow>
        (\<exists>rest. tr = create_event c task # rest
           \<and> (\<forall>e\<in>set rest. e = poll_event c tid \<or> e = Sleep (effective_interval ia))))
   \<and> (created ev c task (Some tid) \<and> tid \<noteq> [] \<and> f64_lt f64_zero (effective_timeout c ta)
        \<and> solve ev c task ia ta = Some (res, tr) \<longrightarrow>
        (\<exists>rest. tr = create_event c task # poll_event c tid # rest))"
proof (intro conjI impI)
  assume "created ev c task None"
  then show "solve ev c task ia ta = Some (Inl no_task_id_error, [create_event c task])"
    by (simp add: solve_no_task_id)
next
  show "\<exists>e. no_task_id_error = ApiError e \<and> exc_kind e = YesCaptchaError
             \<and> error_code e = Some ''ERROR_NO_TASK_ID''"
    using no_task_id_error_code by blast
next
  show "poll_event c tid
       = Post (base_url c @ ''/getTaskResult'')
           (PDict [(''clientKey'', PStr (client_key c)), (''taskId'', PStr tid)])"
    by (simp add: poll_event_def get_task_result_payload_def)
next
  let ?iv = "effective_interval ia" and ?tmo = "effective_timeout c ta"
  let ?payload = "PDict [(''clientKey'', PStr (client_key c)), (''taskId'', PStr tid)]"
  assume a: "created ev c task (Some tid) \<and> tid \<noteq> []
        \<and> (\<forall>k<n. f64_lt (elapsed_after ?iv k) ?tmo
               \<and> (\<exists>p. post_getTaskResult ev k ?payload = Inr p \<and> errorId p = 0 \<and> not_ready p)
               \<and> sleep_raises ev k ?iv = None)
        \<and> f64_lt (elapsed_after ?iv n) ?tmo
        \<and> post_getTaskResult ev n ?payload = Inr r
        \<and> errorId r = 0 \<and> status r = Some ready \<and> solution r = Some sol"
  have pl: "get_task_result_payload c tid = ?payload"
    by (simp add: get_task_result_payload_def)
  from a have p: "\<forall>k<n. f64_lt (elapsed_after ?iv k) ?tmo \<and> pending_round ev c tid ?iv k"
    by (auto simp: pending_round_def pl)
  from a have g: "post_getTaskResult ev n (get_task_result_payload c tid) = Inr r"
    by (simp add: pl)
  from a have c: "created ev c task (Some tid)" and ne: "tid \<noteq> []"
    and l: "f64_lt (elapsed_after ?iv n) ?tmo"
    and r: "errorId r = 0" "status r = Some ready" "solution r = Some sol"
    by simp_all
  show "solve ev c task ia ta
        = Some (Inr sol, create_event c task # rounds c tid ?iv n @ [poll_event c tid])"
    by (rule solve_ready_trace [OF c ne refl refl p l g r])
next
  assume a: "created ev c task (Some tid) \<and> solve ev c task ia ta = Some (res, tr)"
  show "\<exists>rest. tr = create_event c task # rest
           \<and> (\<forall>e\<in>set rest. e = poll_event c tid \<or> e = Sleep (effective_interval ia))"
  proof (cases "tid = []")
    case True
    with a have "created ev c task (Some [])" by simp
    then have "solve ev c task ia ta = Some (Inl no_task_id_error, [create_event c task])"
      by (rule solve_no_task_id) simp
    with a have "tr = [create_event c task]" by simp
    then show ?thesis by simp
  next
    case False
    from a have "created ev c task (Some tid)" by simp
    from solve_created [OF this False, of ia ta] a
    have "poll_loop ev c tid (effective_interval ia) (effective_timeout c ta) f64_zero 0
             [create_event c task] = Some (res, tr)"
      by simp
    from poll_loop_trace_aux [OF this] show ?thesis by auto
  qed
next
  assume a: "created ev c task (Some tid) \<and> tid \<noteq> [] \<and> f64_lt f64_zero (effective_timeout c ta)
        \<and> solve ev c task ia ta = Some (res, tr)"
  then have "created ev c task (Some tid)" and "tid \<noteq> []" by simp_all
  from solve_created [OF this, of ia ta] a
  have "poll_loop ev c tid (effective_interval ia) (effective_timeout c ta) f64_zero 0
             [create_event c task] = Some (res, tr)"
    by simp
  from poll_loop_first_poll [OF this] a
  show "\<exists>rest. tr = create_event c task # poll_event c tid # rest"
    by auto
qed

theorem solve_task_identifier_witness:
  "created (always_processing_env None) scenario_client turnstile_task None
   \<and> solve (always_processing_env None) scenario_client turnstile_task None None
       = Some (Inl no_task_id_error, [create_event scenario_client turnstile_task])
   \<and> poll_event scenario_client ''poll-task-123''
       = Post ''https://api.yescaptcha.com/getTaskResult'' scenario_poll_payload
   \<and> created (ready_after_env 3) scenario_client turnstile_task (Some ''poll-task-123'')
   \<and> ''poll-task-123'' \<noteq> []
   \<and> f64_lt (elapsed_after f64_0_1 0) f64_5
   \<and> post_getTaskResult (ready_after_env 3) 0 scenario_poll_payload = Inr processing_reply
   \<and> f64_lt (elapsed_after f64_0_1 (Suc 0)) f64_5
   \<and> post_getTaskResult (ready_after_env 3) (Suc 0) scenario_poll_payload = Inr processing_reply
   \<and> f64_lt (elapsed_after f64_0_1 (Suc (Suc 0))) f64_5
   \<and> post_getTaskResult (ready_after_env 3) (Suc (Suc 0)) scenario_poll_payload
       = Inr processing_reply
   \<and> errorId processing_reply = 0 \<and> not_ready processing_reply
   \<and> f64_lt (elapsed_after f64_0_1 3) f64_5
   \<and> post_getTaskResult (ready_after_env 3) 3 scenario_poll_payload = Inr ready_reply
   \<and> errorId ready_reply = 0 \<and> status ready_reply = Some ready
   \<and> solution ready_reply = Some solved_solution
   \<and> f64_lt f64_zero f64_5
   \<and> solve (ready_after_env 3) scenario_client turnstile_task (Some f64_0_1) (Some f64_5)
       = Some (Inr solved_solution,
           create_event scenario_client turnstile_task
             # rounds scenario_client ''poll-task-123'' f64_0_1 3
             @ [poll_event scenario_client ''poll-task-123''])
   \<and> (\<exists>rest. create_event scenario_client turnstile_task
                 # rounds scenario_client ''poll-task-123'' f64_0_1 3
                 @ [poll_event scenario_client ''poll-task-123'']
               = create_event scenario_client turnstile_task
                 # poll_event scenario_client ''poll-task-123'' # rest)"
proof -
  let ?ev = "ready_after_env 3"
  let ?tr = "create_event scenario_client turnstile_task
             # rounds scenario_client ''poll-task-123'' f64_0_1 3
             @ [poll_event scenario_client ''poll-task-123'']"
  have ei: "effective_interval (Some f64_0_1) = f64_0_1"
    and et: "effective_timeout scenario_client (Some f64_5) = f64_5"
    by (simp_all add: effective_interval_def effective_timeout_def)
  have pl: "PDict [(''clientKey'', PStr (client_key scenario_client)),
                   (''taskId'', PStr ''poll-task-123'')] = scenario_poll_payload"
    by (simp add: scenario_poll_payload_def scenario_client_def)
  have url: "base_url scenario_client @ ''/getTaskResult''
             = ''https://api.yescaptcha.com/getTaskResult''"
    by (simp add: scenario_client_def)
  note t0 = solve_task_identifier [where ev = "always_processing_env None"
      and c = scenario_client and task = turnstile_task and ia = None and ta = None]
  note t1 = solve_task_identifier [where ev = ?ev and c = scenario_client
      and task = turnstile_task and ia = "Some f64_0_1" and ta = "Some f64_5"
      and tid = "''poll-task-123''" and n = 3 and r = ready_reply and sol = solved_solution
      and res = "Inr solved_solution" and tr = ?tr, unfolded ei et pl url]
  have c0: "created (always_processing_env None) scenario_client turnstile_task None"
    by (rule created_always_processing)
  have c1: "created ?ev scenario_client turnstile_task (Some ''poll-task-123'')"
    by (rule created_ready_after)
  have ne: "''poll-task-123'' \<noteq> []"
    by simp
  have g: "post_getTaskResult ?ev 0 scenario_poll_payload = Inr processing_reply"
    "post_getTaskResult ?ev (Suc 0) scenario_poll_payload = Inr processing_reply"
    "post_getTaskResult ?ev (Suc (Suc 0)) scenario_poll_payload = Inr processing_reply"
    "post_getTaskResult ?ev 3 scenario_poll_payload = Inr ready_reply"
    by (simp_all add: ready_after_env_def)
  have pr: "errorId processing_reply = 0" "not_ready processing_reply"
    by (simp_all add: processing_reply_def not_ready_def)
  have r: "errorId ready_reply = 0" "status ready_reply = Some ready"
    "solution ready_reply = Some solved_solution"
    by (simp_all add: ready_reply_def)
  have l: "f64_lt (elapsed_after f64_0_1 3) f64_5"
    using elapsed_0_1_lt_5(4) by (simp add: numeral_3_eq_3)
  have z: "f64_lt f64_zero f64_5"
    using elapsed_0_1_lt_5(1) by simp
  have h: "\<forall>k<3. f64_lt (elapsed_after f64_0_1 k) f64_5
             \<and> (\<exists>p. post_getTaskResult ?ev k scenario_poll_payload = Inr p
                      \<and> errorId p = 0 \<and> not_ready p)
             \<and> sleep_raises ?ev k f64_0_1 = None"
    using elapsed_0_1_lt_5 pr
    by (auto simp: less_3_cases ready_after_env_def)
  from t0 c0
  have a: "solve (always_processing_env None) scenario_client turnstile_task None None
       = Some (Inl no_task_id_error, [create_event scenario_client turnstile_task])"
    by blast
  from t1
  have pe: "poll_event scenario_client ''poll-task-123''
       = Post ''https://api.yescaptcha.com/getTaskResult'' scenario_poll_payload"
    by blast
  from t1 c1 ne h l g(4) r
  have s: "solve ?ev scenario_client turnstile_task (Some f64_0_1) (Some f64_5)
       = Some (Inr solved_solution, ?tr)"
    by blast
  from t1 c1 ne z s
  have d: "\<exists>rest. ?tr = create_event scenario_client turnstile_task
                 # poll_event scenario_client ''poll-task-123'' # rest"
    by blast
  show ?thesis
    by (intro conjI c0 a pe c1 ne g pr l r z s d elapsed_0_1_lt_5)
qed

text \<open>
  Claim C10. When the effective timeout (the argument, or the client's own timeout when
  the argument is left out) is at most zero and the task was created with a non-empty
  identifier, the loop body never runs: \<^verbatim>\<open>solve\<close> raises \<open>TaskTimeoutError\<close> and the
  trace of the run is the \<^verbatim>\<open>createTask\<close> request alone, with no poll and no wait.
\<close>

theorem solve_nonpositive_timeout:
  assumes "created ev c task (Some tid)" and "tid \<noteq> []"
    and "f64_le (effective_timeout c ta) f64_zero"
  shows "\<exists>e. solve ev c task ia ta = Some (Inl (ApiError e), [create_event c task])
            \<and> exc_kind e = TaskTimeoutError
            \<and> error_code e = Some ''ERROR_TASK_TIMEOUT''
            \<and> poll_count c [create_event c task] = 0
            \<and> sleep_count [create_event c task] = 0"
proof -
  have "\<not> f64_lt f64_zero (effective_timeout c ta)"
    using assms(3) by (rule f64_le_zero_not_lt)
  then have "solve ev c task ia ta
             = Some (Inl (timeout_error ev tid (effective_timeout c ta)), [create_event c task])"
    using assms(1,2) by (simp add: solve_created poll_loop_timeout)
  then show ?thesis
    by (simp add: timeout_error_def make_exception_def)
qed

theorem solve_nonpositive_timeout_witness:
  "created (always_processing_env (Some ''timeout-task''))
     (scenario_client\<lparr>timeout := f64_zero\<rparr>) turnstile_task (Some ''timeout-task'')
   \<and> ''timeout-task'' \<noteq> []
   \<and> f64_le (effective_timeout (scenario_client\<lparr>timeout := f64_zero\<rparr>) None) f64_zero
   \<and> (\<exists>e. solve (always_processing_env (Some ''timeout-task''))
              (scenario_client\<lparr>timeout := f64_zero\<rparr>) turnstile_task (Some f64_0_1) None
            = Some (Inl (ApiError e),
                [create_event (scenario_client\<lparr>timeout := f64_zero\<rparr>) turnstile_task])
          \<and> exc_kind e = TaskTimeoutError
          \<and> error_code e = Some ''ERROR_TASK_TIMEOUT''
          \<and> poll_count (scenario_client\<lparr>timeout := f64_zero\<rparr>)
               [create_event (scenario_client\<lparr>timeout := f64_zero\<rparr>) turnstile_task] = 0
          \<and> sleep_count
               [create_event (scenario_client\<lparr>timeout := f64_zero\<rparr>) turnstile_task] = 0)"
proof -
  let ?c = "scenario_client\<lparr>timeout := f64_zero\<rparr>"
  have c: "created (always_processing_env (Some ''timeout-task'')) ?c turnstile_task
             (Some ''timeout-task'')"
    by (rule created_always_processing)
  have ne: "''timeout-task'' \<noteq> []"
    by simp
  have le: "f64_le (effective_timeout ?c None) f64_zero"
    by (simp add: effective_timeout_def f64_zero_def Let_def)
  note concl = solve_nonpositive_timeout [OF c ne le, of "Some f64_0_1"]
  show ?thesis
    by (intro conjI c ne le concl)
qed

section \<open>Properties of the models\<close>

text \<open>
  Vocabulary: an annotation is \<open>nullable\<close> when it admits \<^verbatim>\<open>None\<close>; a field
  declaration is in order (\<open>field_ok\<close>) when a required field is not nullable, a default
  is a value of the annotated type, and the default of a nullable field is \<^verbatim>\<open>None\<close>;
  a class is well formed when its field names are distinct, it ignores extra keys and all
  its fields are in order; it has a discriminator when its \<^verbatim>\<open>type\<close> field is a
  \<^verbatim>\<open>Literal\<close> whose default is one of the listed strings. \<open>validated lx d f\<close> is the
  value that field \<open>f\<close> takes from the input \<open>d\<close>.
\<close>

fun nullable :: "ftype \<Rightarrow> bool" where
  "nullable TAny = True"
| "nullable (TOptional t) = True"
| "nullable t = False"




definition field_ok :: "lax \<Rightarrow> field \<Rightarrow> bool" where
  "field_ok lx f =
     (case fdefault f of
        None \<Rightarrow> \<not> nullable (ftype f)
      | Some dv \<Rightarrow> validate_value lx (ftype f) dv = Some dv \<and> (nullable (ftype f) \<longrightarrow> dv = PNone))"

definition wf_model :: "lax \<Rightarrow> model \<Rightarrow> bool" where
  "wf_model lx m =
     (distinct (field_names m) \<and> \<not> extra_allow m \<and> list_all (field_ok lx) (model_fields m))"

definition has_discriminator :: "model \<Rightarrow> bool" where
  "has_discriminator m =
     (case find (\<lambda>f. fname f = ''type'') (model_fields m) of
        None \<Rightarrow> False
      | Some f \<Rightarrow>
          (case ftype f of
             TLiteral ls \<Rightarrow> (case fdefault f of Some (PStr s) \<Rightarrow> s \<in> set ls | _ \<Rightarrow> False)
           | _ \<Rightarrow> False))"

definition validated :: "lax \<Rightarrow> (string \<times> pyval) list \<Rightarrow> field \<Rightarrow> pyval" where
  "validated lx d f = projr (validate_field lx d f)"

lemma map_filter_Nil_iff: "List.map_filter g xs = [] \<longleftrightarrow> (\<forall>x\<in>set xs. g x = None)"
  by (induction xs) (auto simp: List.map_filter_simps split: option.splits)

lemma errs_None_iff:
  "(case x of Inl e \<Rightarrow> Some e | Inr v \<Rightarrow> None) = None \<longleftrightarrow> (\<exists>v. x = Inr v)"
  by (cases x) auto

lemma errs_Some_iff:
  "(case x of Inl e \<Rightarrow> Some e | Inr v \<Rightarrow> None) \<noteq> None \<longleftrightarrow> (\<exists>e. x = Inl e)"
  by (cases x) auto

lemma model_validate_Inr_iff:
  "model_validate lx m d = Inr t \<longleftrightarrow>
     (\<forall>f\<in>set (model_fields m). \<exists>v. validate_field lx d f = Inr v)
     \<and> t = \<lparr> inst_model = mname m,
             inst_fields = map (\<lambda>f. (fname f, validated lx d f)) (model_fields m),
             inst_extra = (if extra_allow m
                           then Some (filter (\<lambda>kv. fst kv \<notin> set (field_names m)) d)
                           else None) \<rparr>"
proof (cases "\<forall>f\<in>set (model_fields m). \<exists>v. validate_field lx d f = Inr v")
  case True
  then have "List.map_filter
               (\<lambda>f. case validate_field lx d f of Inl e \<Rightarrow> Some e | Inr v \<Rightarrow> None)
               (model_fields m) = []"
    by (simp add: map_filter_Nil_iff errs_None_iff)
  with True show ?thesis
    by (simp add: model_validate_def validated_def eq_commute)
next
  case False
  then have "List.map_filter
               (\<lambda>f. case validate_field lx d f of Inl e \<Rightarrow> Some e | Inr v \<Rightarrow> None)
               (model_fields m) \<noteq> []"
    by (simp add: map_filter_Nil_iff errs_None_iff)
  with False show ?thesis
    by (simp add: model_validate_def)
qed

lemma model_validate_Inl_iff:
  "(\<exists>errs. model_validate lx m d = Inl errs) \<longleftrightarrow>
     (\<exists>f\<in>set (model_fields m). \<exists>e. validate_field lx d f = Inl e)"
proof (cases "\<forall>f\<in>set (model_fields m). \<exists>v. validate_field lx d f = Inr v")
  case True
  then have "\<exists>t. model_validate lx m d = Inr t"
    by (simp add: model_validate_Inr_iff)
  with True show ?thesis by auto
next
  case False
  then obtain f where f: "f \<in> set (model_fields m)" "\<forall>v. validate_field lx d f \<noteq> Inr v"
    by auto
  then have e: "\<exists>e. validate_field lx d f = Inl e"
    by (cases "validate_field lx d f") auto
  from False have "\<forall>t. model_validate lx m d \<noteq> Inr t"
    by (simp add: model_validate_Inr_iff)
  then have "\<exists>errs. model_validate lx m d = Inl errs"
    by (cases "model_validate lx m d") auto
  with f(1) e show ?thesis by auto
qed

lemma map_of_fields:
  assumes "distinct (map fname fs)" and "f \<in> set fs"
  shows "map_of (map (\<lambda>f. (fname f, g f)) fs) (fname f) = Some (g f)"
  using assms by (induction fs) (auto simp: rev_image_eqI)



subsection \<open>Validation after serialization\<close>

lemmas task_defs =
  ImageToTextTask_def NoCaptchaTaskProxyless_def RecaptchaV2EnterpriseTaskProxyless_def
  RecaptchaV3TaskProxyless_def RecaptchaV3EnterpriseTask_def HCaptchaTaskProxyless_def
  HCaptchaClassification_def ReCaptchaV2Classification_def FunCaptchaClassification_def
  TurnstileTaskProxyless_def CloudFlareTask_def

lemma Task_wf: "m \<in> set Task \<Longrightarrow> wf_model lx m"
  by (auto simp: Task_def wf_model_def field_names_def field_ok_def task_model_def
      required_def with_default_def task_defs)

lemma Task_discriminator: "m \<in> set Task \<Longrightarrow> has_discriminator m"
  by (auto simp: Task_def has_discriminator_def task_model_def
      required_def with_default_def task_defs)


lemma field_value_validated:
  assumes "model_validate lx m d = Inr t" and "distinct (field_names m)"
    and "f \<in> set (model_fields m)"
  shows "field_value t (fname f) = Some (validated lx d f)"
  using assms
  by (simp add: model_validate_Inr_iff field_value_def field_names_def map_of_fields)





subsection \<open>The discriminator\<close>

lemma discriminator_field:
  assumes "has_discriminator m"
  obtains f ls s0 where "f \<in> set (model_fields m)" and "fname f = ''type''"
    and "ftype f = TLiteral ls" and "fdefault f = Some (PStr s0)" and "s0 \<in> set ls"
    and "type_literals m = ls"
proof -
  from assms obtain f where f: "find (\<lambda>f. fname f = ''type'') (model_fields m) = Some f"
    by (auto simp: has_discriminator_def split: option.splits)
  then have a: "f \<in> set (model_fields m)" "fname f = ''type''"
    by (auto simp: find_Some_iff)
  from assms f obtain ls where ls: "ftype f = TLiteral ls"
    by (auto simp: has_discriminator_def split: ftype.splits)
  with assms f obtain s0 where "fdefault f = Some (PStr s0)" "s0 \<in> set ls"
    by (auto simp: has_discriminator_def split: option.splits pyval.splits)
  moreover from f ls have "type_literals m = ls"
    by (simp add: type_literals_def)
  ultimately show ?thesis using that a ls by blast
qed

lemma validated_discriminator:
  assumes "model_validate lx m d = Inr t" and "has_discriminator m"
  obtains f s where "f \<in> set (model_fields m)" and "fname f = ''type''"
    and "validated lx d f = PStr s" and "s \<in> set (type_literals m)"
proof -
  from assms(2) obtain f ls s0 where f: "f \<in> set (model_fields m)" "fname f = ''type''"
    "ftype f = TLiteral ls" "fdefault f = Some (PStr s0)" "s0 \<in> set ls" "type_literals m = ls"
    by (rule discriminator_field)
  from assms(1) f(1) obtain v where v: "validate_field lx d f = Inr v"
    by (auto simp: model_validate_Inr_iff)
  with f have "\<exists>s. v = PStr s \<and> s \<in> set ls"
    by (auto simp: validate_field_def split: option.splits pyval.splits if_splits)
  with v f that show ?thesis
    by (auto simp: validated_def)
qed

subsection \<open>A concrete task\<close>



lemmas validate_simps =
  model_validate_def validate_field_def validated_def field_names_def task_model_def
  required_def with_default_def List.map_filter_simps Let_def




lemma hcaptcha_literals: "type_literals HCaptchaClassification = [''HCaptchaClassification'']"
  by (simp add: type_literals_def HCaptchaClassification_def task_model_def with_default_def
      required_def)

lemma hcaptcha_required: "required_names HCaptchaClassification = [''queries'']"
  by (simp add: required_names_def HCaptchaClassification_def task_model_def with_default_def
      required_def)

lemma empty_queries_accepted:
  "model_validate lx HCaptchaClassification [(''queries'', PList [])]
   = Inr \<lparr> inst_model = ''HCaptchaClassification'',
           inst_fields = [ (''type'', PStr ''HCaptchaClassification''),
                           (''queries'', PList []),
                           (''question'', PNone),
                           (''anchors'', PNone) ],
           inst_extra = None \<rparr>"
  by (simp add: validate_simps HCaptchaClassification_def)

section \<open>Properties of serialization and validation\<close>



definition turnstile_input :: "string \<Rightarrow> (string \<times> pyval) list" where
  "turnstile_input ty =
     [ (''type'', PStr ty),
       (''websiteURL'', PStr ''https://example.com''),
       (''websiteKey'', PStr ''0x4AAAAAAAB...'') ]"

lemma turnstile_in_Task: "TurnstileTaskProxyless \<in> set Task"
  by (simp add: Task_def)

lemma turnstile_literals:
  "type_literals TurnstileTaskProxyless = [''TurnstileTaskProxyless'', ''TurnstileTaskProxylessM1'']"
  by (simp add: type_literals_def TurnstileTaskProxyless_def task_model_def with_default_def
      required_def)

lemma turnstile_M1_validated:
  "model_validate lx TurnstileTaskProxyless (turnstile_input ''TurnstileTaskProxylessM1'')
   = Inr (turnstile_task\<lparr>inst_fields := turnstile_input ''TurnstileTaskProxylessM1''\<rparr>)"
  by (simp add: validate_simps TurnstileTaskProxyless_def turnstile_input_def turnstile_task_def)

text \<open>
  Claim C8. For every class of the union \<^verbatim>\<open>Task\<close>: the \<^verbatim>\<open>type\<close> of an instance that
  validation builds is one of the strings that the class lists in its \<^verbatim>\<open>Literal\<close>, and
  an input whose \<^verbatim>\<open>type\<close> is anything else (another string, or not a string) fails
  validation.
\<close>

theorem task_type_discriminator:
  assumes "m \<in> set Task"
  shows "(model_validate lx m d = Inr t \<longrightarrow>
            (\<exists>s. field_value t ''type'' = Some (PStr s) \<and> s \<in> set (type_literals m)))
         \<and> (map_of d ''type'' = Some v \<and> v \<notin> PStr ` set (type_literals m) \<longrightarrow>
              (\<exists>errs. model_validate lx m d = Inl errs))"
proof (intro conjI impI)
  assume a: "model_validate lx m d = Inr t"
  have wf: "wf_model lx m" and disc: "has_discriminator m"
    using assms by (simp_all add: Task_wf Task_discriminator)
  from a disc obtain f s where f: "f \<in> set (model_fields m)" "fname f = ''type''"
    "validated lx d f = PStr s" "s \<in> set (type_literals m)"
    by (rule validated_discriminator)
  from wf have "distinct (field_names m)"
    by (simp add: wf_model_def)
  from field_value_validated [OF a this f(1)] f
  show "\<exists>s. field_value t ''type'' = Some (PStr s) \<and> s \<in> set (type_literals m)"
    by simp
next
  assume a: "map_of d ''type'' = Some v \<and> v \<notin> PStr ` set (type_literals m)"
  have "has_discriminator m"
    using assms by (rule Task_discriminator)
  then obtain f ls s0 where f: "f \<in> set (model_fields m)" "fname f = ''type''"
    "ftype f = TLiteral ls" "fdefault f = Some (PStr s0)" "s0 \<in> set ls" "type_literals m = ls"
    by (rule discriminator_field)
  with a have "validate_field lx d f = Inl (Invalid ''type'')"
    by (auto simp: validate_field_def split: pyval.splits)
  with f(1) show "\<exists>errs. model_validate lx m d = Inl errs"
    unfolding model_validate_Inl_iff by blast
qed

theorem task_type_discriminator_witness:
  "TurnstileTaskProxyless \<in> set Task
   \<and> type_literals TurnstileTaskProxyless
       = [''TurnstileTaskProxyless'', ''TurnstileTaskProxylessM1'']
   \<and> model_validate no_coercion TurnstileTaskProxyless
        (turnstile_input ''TurnstileTaskProxylessM1'')
       = Inr (turnstile_task\<lparr>inst_fields := turnstile_input ''TurnstileTaskProxylessM1''\<rparr>)
   \<and> (\<exists>s. field_value (turnstile_task\<lparr>inst_fields := turnstile_input ''TurnstileTaskProxylessM1''\<rparr>)
             ''type'' = Some (PStr s)
          \<and> s \<in> set (type_literals TurnstileTaskProxyless))
   \<and> map_of (turnstile_input ''TurnstileTaskProxylessM2'') ''type''
       = Some (PStr ''TurnstileTaskProxylessM2'')
   \<and> PStr ''TurnstileTaskProxylessM2'' \<notin> PStr ` set (type_literals TurnstileTaskProxyless)
   \<and> (\<exists>errs. model_validate no_coercion TurnstileTaskProxyless
                 (turnstile_input ''TurnstileTaskProxylessM2'') = Inl errs)"
proof -
  note t1 = task_type_discriminator [OF turnstile_in_Task, of no_coercion
      "turnstile_input ''TurnstileTaskProxylessM1''"
      "turnstile_task\<lparr>inst_fields := turnstile_input ''TurnstileTaskProxylessM1''\<rparr>"]
  note t2 = task_type_discriminator [OF turnstile_in_Task, of no_coercion
      "turnstile_input ''TurnstileTaskProxylessM2''" _ "PStr ''TurnstileTaskProxylessM2''"]
  have m: "map_of (turnstile_input ''TurnstileTaskProxylessM2'') ''type''
       = Some (PStr ''TurnstileTaskProxylessM2'')"
    by (simp add: turnstile_input_def)
  have n: "PStr ''TurnstileTaskProxylessM2'' \<notin> PStr ` set (type_literals TurnstileTaskProxyless)"
    by (simp add: turnstile_literals)
  from t1 turnstile_M1_validated
  have 1: "\<exists>s. field_value (turnstile_task\<lparr>inst_fields := turnstile_input ''TurnstileTaskProxylessM1''\<rparr>)
             ''type'' = Some (PStr s)
          \<and> s \<in> set (type_literals TurnstileTaskProxyless)"
    by blast
  from t2 m n
  have 2: "\<exists>errs. model_validate no_coercion TurnstileTaskProxyless
                 (turnstile_input ''TurnstileTaskProxylessM2'') = Inl errs"
    by blast
  show ?thesis
    by (intro conjI turnstile_in_Task turnstile_literals turnstile_M1_validated 1 m n 2)
qed

lemma required_field:
  assumes "k \<in> set (required_names m)"
  obtains f where "f \<in> set (model_fields m)" and "fname f = k" and "fdefault f = None"
  using assms by (auto simp: required_names_def)

lemma missing_required_fails:
  assumes "k \<in> set (required_names m)" and "map_of d k = None"
  shows "\<exists>errs. model_validate lx m d = Inl errs"
proof -
  from assms(1) obtain f where f: "f \<in> set (model_fields m)" "fname f = k" "fdefault f = None"
    by (rule required_field)
  with assms(2) have "validate_field lx d f = Inl (Missing k)"
    by (simp add: validate_field_def)
  with f(1) show ?thesis
    unfolding model_validate_Inl_iff by blast
qed

definition recaptcha_v3_input :: "(string \<times> pyval) list" where
  "recaptcha_v3_input =
     [ (''websiteURL'', PStr ''https://example.com''), (''websiteKey'', PStr ''6Le-wvkS...'') ]"

lemma recaptcha_v3_required:
  "required_names RecaptchaV3TaskProxyless = [''websiteURL'', ''websiteKey'', ''pageAction'']"
  by (simp add: required_names_def RecaptchaV3TaskProxyless_def task_model_def with_default_def
      required_def)

text \<open>
  Claim C7, as amended. Validation rejects a missing required field: for every class
  of the union \<^verbatim>\<open>Task\<close>, an input without one of the required fields fails, and in
  particular an \<^verbatim>\<open>HCaptchaClassification\<close> without \<^verbatim>\<open>queries\<close> fails. The field
  \<^verbatim>\<open>queries\<close> is required but carries no length constraint: an empty list is a valid
  value and is kept as it is.
\<close>

theorem task_missing_required_field:
  "(m \<in> set Task \<and> k \<in> set (required_names m) \<and> map_of d k = None \<longrightarrow>
      (\<exists>errs. model_validate lx m d = Inl errs))
   \<and> (map_of d ''queries'' = None \<longrightarrow>
        (\<exists>errs. model_validate lx HCaptchaClassification d = Inl errs))
   \<and> (\<exists>t. model_validate lx HCaptchaClassification [(''queries'', PList [])] = Inr t
          \<and> field_value t ''queries'' = Some (PList []))"
proof (intro conjI impI)
  assume "m \<in> set Task \<and> k \<in> set (required_names m) \<and> map_of d k = None"
  then show "\<exists>errs. model_validate lx m d = Inl errs"
    using missing_required_fails by blast
next
  assume "map_of d ''queries'' = None"
  moreover have "''queries'' \<in> set (required_names HCaptchaClassification)"
    by (simp add: hcaptcha_required)
  ultimately show "\<exists>errs. model_validate lx HCaptchaClassification d = Inl errs"
    using missing_required_fails by blast
next
  show "\<exists>t. model_validate lx HCaptchaClassification [(''queries'', PList [])] = Inr t
          \<and> field_value t ''queries'' = Some (PList [])"
    by (simp add: empty_queries_accepted field_value_def)
qed

theorem task_missing_required_field_witness:
  "RecaptchaV3TaskProxyless \<in> set Task
   \<and> ''pageAction'' \<in> set (required_names RecaptchaV3TaskProxyless)
   \<and> map_of recaptcha_v3_input ''pageAction'' = None
   \<and> (\<exists>errs. model_validate no_coercion RecaptchaV3TaskProxyless recaptcha_v3_input = Inl errs)
   \<and> map_of [] ''queries'' = (None :: pyval option)
   \<and> (\<exists>errs. model_validate no_coercion HCaptchaClassification [] = Inl errs)"
proof -
  have a: "RecaptchaV3TaskProxyless \<in> set Task"
    by (simp add: Task_def)
  have b: "''pageAction'' \<in> set (required_names RecaptchaV3TaskProxyless)"
    by (simp add: recaptcha_v3_required)
  have c: "map_of recaptcha_v3_input ''pageAction'' = None"
    by (simp add: recaptcha_v3_input_def)
  have d: "map_of [] ''queries'' = (None :: pyval option)"
    by simp
  note t1 = task_missing_required_field [of RecaptchaV3TaskProxyless "''pageAction''"
      recaptcha_v3_input no_coercion]
  note t2 = task_missing_required_field [of RecaptchaV3TaskProxyless "''pageAction''"
      "[]" no_coercion]
  from t1 a b c
  have 1: "\<exists>errs. model_validate no_coercion RecaptchaV3TaskProxyless recaptcha_v3_input = Inl errs"
    by blast
  from t2 d
  have 2: "\<exists>errs. model_validate no_coercion HCaptchaClassification [] = Inl errs"
    by blast
  show ?thesis
    by (intro conjI a b c 1 d 2)
qed

text \<open>
  Claim C7 as the specification words it, that an \<^verbatim>\<open>HCaptchaClassification\<close> whose
  \<^verbatim>\<open>queries\<close> list is empty fails validation, does not hold.
\<close>

theorem empty_queries_counterexample:
  "\<not> (\<exists>errs. model_validate no_coercion HCaptchaClassification [(''queries'', PList [])]
               = Inl errs)"
  by (simp add: empty_queries_accepted)

lemma map_of_filter_key:
  "map_of (filter (\<lambda>kv. Q (fst kv)) d) k = (if Q k then map_of d k else None)"
  by (induction d) auto

lemma Solution_names:
  "field_names Solution
   = [''gRecaptchaResponse'', ''token'', ''text'', ''objects'', ''cookies'', ''userAgent'',
      ''content'']"
  by (simp add: field_names_def Solution_def with_default_def)

definition solution_input :: "(string \<times> pyval) list" where
  "solution_input = [ (''token'', PStr ''xyz''), (''customField'', PStr ''customValue'') ]"

definition parsed_solution :: model_instance where
  "parsed_solution =
     \<lparr> inst_model = ''Solution'',
       inst_fields = [ (''gRecaptchaResponse'', PNone), (''token'', PStr ''xyz''),
                       (''text'', PNone), (''objects'', PNone), (''cookies'', PNone),
                       (''userAgent'', PNone), (''content'', PNone) ],
       inst_extra = Some [ (''customField'', PStr ''customValue'') ] \<rparr>"

lemma solution_input_validated:
  "model_validate lx Solution solution_input = Inr parsed_solution"
  by (simp add: validate_simps Solution_def solution_input_def parsed_solution_def)

text \<open>
  Claim C9. Parsing a \<^verbatim>\<open>Solution\<close> payload keeps what the class does not declare:
  every key of the payload that is not a declared field is found in \<^verbatim>\<open>model_extra\<close>
  with the value it had, and a \<^verbatim>\<open>token\<close> string of the payload is the instance's
  \<^verbatim>\<open>token\<close>. The payload of the specification's scenario is the witness.
\<close>

theorem solution_extra_fields_preserved:
  assumes "model_validate lx Solution d = Inr t"
  shows "(\<forall>k v. map_of d k = Some v \<and> k \<notin> set (field_names Solution) \<longrightarrow>
            model_extra_get t k = Some v)
         \<and> (\<forall>s. map_of d ''token'' = Some (PStr s) \<longrightarrow>
              field_value t ''token'' = Some (PStr s))"
proof (intro conjI allI impI)
  fix k v assume "map_of d k = Some v \<and> k \<notin> set (field_names Solution)"
  moreover from assms
  have "inst_extra t = Some (filter (\<lambda>kv. fst kv \<notin> set (field_names Solution)) d)"
    by (simp add: model_validate_Inr_iff) (simp add: Solution_def)
  ultimately show "model_extra_get t k = Some v"
    using map_of_filter_key [of "\<lambda>k. k \<notin> set (field_names Solution)" d k]
    by (simp add: model_extra_get_def)
next
  fix s assume a: "map_of d ''token'' = Some (PStr s)"
  let ?f = "with_default ''token'' (TOptional TStr) PNone"
  have f: "?f \<in> set (model_fields Solution)"
    by (simp add: Solution_def)
  have dist: "distinct (field_names Solution)"
    by (simp add: Solution_names)
  from a have "validated lx d ?f = PStr s"
    by (simp add: validated_def validate_field_def with_default_def)
  with field_value_validated [OF assms dist f]
  show "field_value t ''token'' = Some (PStr s)"
    by (simp add: with_default_def)
qed

theorem solution_extra_fields_preserved_witness:
  "model_validate no_coercion Solution solution_input = Inr parsed_solution
   \<and> map_of solution_input ''customField'' = Some (PStr ''customValue'')
   \<and> ''customField'' \<notin> set (field_names Solution)
   \<and> map_of solution_input ''token'' = Some (PStr ''xyz'')
   \<and> model_extra_get parsed_solution ''customField'' = Some (PStr ''customValue'')
   \<and> field_value parsed_solution ''token'' = Some (PStr ''xyz'')"
proof -
  note t = solution_extra_fields_preserved [OF solution_input_validated [of no_coercion]]
  have a: "map_of solution_input ''customField'' = Some (PStr ''customValue'')"
    and b: "map_of solution_input ''token'' = Some (PStr ''xyz'')"
    by (simp_all add: solution_input_def)
  have c: "''customField'' \<notin> set (field_names Solution)"
    by (simp add: Solution_names)
  from t a c have 1: "model_extra_get parsed_solution ''customField'' = Some (PStr ''customValue'')"
    by blast
  from t b have 2: "field_value parsed_solution ''token'' = Some (PStr ''xyz'')"
    by blast
  show ?thesis
    by (intro conjI solution_input_validated a c b 1 2)
qed

end
